theory Spec2Isabelle
  imports Complex_Main
begin

section \<open>Values exchanged with the DevKit\<close>

text \<open>
  The client is Python 2 code: every value it receives from the REST API is the result of
  \<^verbatim>\<open>json.loads\<close>, so a value is a JSON document. Python's \<^verbatim>\<open>None\<close> is \<open>JNull\<close>
  (a function that returns nothing returns \<^verbatim>\<open>None\<close>), a \<^verbatim>\<open>dict\<close> is an association
  list read with \<open>map_of\<close>, and strings are byte strings.
\<close>

datatype json =
    JNull
  | JBool bool
  | JInt int
  | JFloat real
  | JStr string
  | JArr "json list"
  | JObj "(string \<times> json) list"

text \<open>The response object of \<^verbatim>\<open>tornado.httpclient\<close>: only its \<^verbatim>\<open>body\<close> is read.\<close>

datatype response = Response "string option"

fun response_body :: "response \<Rightarrow> string option" where
  "response_body (Response b) = b"

text \<open>
  The exceptions the program distinguishes. \<open>AerialException\<close> is the class of
  \<^verbatim>\<open>api_wrapper.py\<close>; its two fields hold whatever the constructor was given.
  \<open>HTTPError\<close> is tornado's (status code and the response, which may be absent),
  \<open>SocketError\<close> is \<^verbatim>\<open>socket.error\<close> with its \<^verbatim>\<open>strerror\<close>, and \<open>PyError\<close> is
  any other Python exception, named by its class.
\<close>

datatype exn =
    AerialException json json
  | HTTPError int "response option"
  | SocketError "string option"
  | PyError string

text \<open>
  The libraries the program calls are parameters of the model:
  \<^item> \<open>json_loads\<close> is \<^verbatim>\<open>json.loads\<close> on a string; \<open>None\<close> is its \<^verbatim>\<open>ValueError\<close>;
  \<^item> \<open>strftime_local\<close> is dateutil's
    \<^verbatim>\<open>parser.parse(d).replace(tzinfo = tz.tzutc()).astimezone(tz.tzlocal()).strftime(f)\<close>;
    \<open>Inl\<close> names the exception it raises on a value it cannot parse;
  \<^item> \<open>colored\<close> is termcolor's function (text, colour, attributes);
  \<^item> \<open>format_name_status\<close> is \<^verbatim>\<open>'{0:15}{1:>8}'.format(name, status)\<close>; \<open>Inl\<close> names
    the exception it raises (a byte-string template cannot take every unicode name);
  \<^item> \<open>str_upper\<close> is the method \<^verbatim>\<open>.upper()\<close> of Python's strings; on the unicode strings
    that \<^verbatim>\<open>json.loads\<close> returns it changes every letter that has an upper case, not only
    the letters a to z.
\<close>

record env =
  json_loads :: "string \<Rightarrow> json option"
  strftime_local :: "json \<Rightarrow> string \<Rightarrow> string + string"
  colored :: "string \<Rightarrow> string option \<Rightarrow> string list \<Rightarrow> string"
  format_name_status :: "json \<Rightarrow> string \<Rightarrow> string + string"
  str_upper :: "string \<Rightarrow> string"

section \<open>The API client (\<^verbatim>\<open>api_wrapper.py\<close>)\<close>

text \<open>
  A request as \<^verbatim>\<open>HTTPClient.fetch\<close> receives it. The HTTP client is modelled by what
  its \<^verbatim>\<open>fetch\<close> does with a request: it returns a response or raises.
\<close>

record request =
  url :: string
  http_method :: string
  body :: "string option"
  request_timeout :: nat

record api_wrapper =
  server :: string
  port :: int
  client :: "request \<Rightarrow> exn + response"
  stop_detection :: bool

subsection \<open>\<^verbatim>\<open>urllib.quote\<close> and string formatting\<close>

text \<open>
  \<^verbatim>\<open>urllib.quote(s)\<close> of Python 2 with its default \<^verbatim>\<open>safe = '/'\<close>: letters, digits,
  \<^verbatim>\<open>_.-\<close> and the safe characters are kept, every other byte becomes \<^verbatim>\<open>%XX\<close> with two
  upper-case hexadecimal digits.
\<close>

definition always_safe :: string where
  "always_safe = ''ABCDEFGHIJKLMNOPQRSTUVWXYZ'' @ ''abcdefghijklmnopqrstuvwxyz''
     @ ''0123456789'' @ ''_.-''"

definition hex_digit :: "nat \<Rightarrow> char" where
  "hex_digit n = ''0123456789ABCDEF'' ! (n mod 16)"

definition quoter :: "string \<Rightarrow> char \<Rightarrow> string" where
  "quoter safe c =
     (if c \<in> set (always_safe @ safe) then [c]
      else [CHR ''%'', hex_digit (of_char c div 16), hex_digit (of_char c mod 16)])"

definition quote :: "string \<Rightarrow> string" where
  "quote s = concat (map (quoter ''/'') s)"

text \<open>\<^verbatim>\<open>'{0}'.format(n)\<close> on an integer: its decimal digits, with a sign.\<close>

fun str_nat :: "nat \<Rightarrow> string" where
  "str_nat n =
     (if n < 10 then [''0123456789'' ! n]
      else str_nat (n div 10) @ [''0123456789'' ! (n mod 10)])"

definition str_int :: "int \<Rightarrow> string" where
  "str_int i = (if i < 0 then CHR ''-'' # str_nat (nat (- i)) else str_nat (nat i))"

subsection \<open>\<^verbatim>\<open>ApiWrapper.__http_request\<close>\<close>

text \<open>Lines 168 to 174: the URL is quoted and prefixed, a missing body is fixed.\<close>

definition prepare_request ::
  "api_wrapper \<Rightarrow> string \<Rightarrow> string \<Rightarrow> string option \<Rightarrow> nat \<Rightarrow> request" where
  "prepare_request self u m b t =
     (let u' = quote u;
          full_url = ''http://'' @ server self @ '':'' @ str_int (port self) @ ''/api'' @ u';
          b' = (if m \<in> set [''POST'', ''PUT''] \<and> b = None then Some '''' else b)
      in \<lparr>url = full_url, http_method = m, body = b', request_timeout = t\<rparr>)"

text \<open>
  Lines 182 to 184, inside \<^verbatim>\<open>try\<close>:
  \<^verbatim>\<open>json.loads(error.response.body)['error']\<close>, then its \<^verbatim>\<open>['type']\<close> and
  \<^verbatim>\<open>['message']\<close>. \<open>None\<close> stands for any exception raised there (no response, no body,
  not JSON, not a dict, a missing key): the \<^verbatim>\<open>finally\<close> clause replaces it.
\<close>

definition aerial_error :: "env \<Rightarrow> response option \<Rightarrow> (json \<times> json) option" where
  "aerial_error L r =
     (case r of
        None \<Rightarrow> None
      | Some resp \<Rightarrow>
          (case response_body resp of
             None \<Rightarrow> None
           | Some b \<Rightarrow>
               (case json_loads L b of
                  Some (JObj d) \<Rightarrow>
                    (case map_of d ''error'' of
                       Some (JObj ed) \<Rightarrow>
                         (case map_of ed ''type'' of
                            None \<Rightarrow> None
                          | Some ty \<Rightarrow>
                              (case map_of ed ''message'' of
                                 None \<Rightarrow> None
                               | Some msg \<Rightarrow> Some (ty, msg)))
                     | _ \<Rightarrow> None)
                | _ \<Rightarrow> None)))"

text \<open>
  Lines 176 to 197: what \<^verbatim>\<open>__http_request\<close> does with the outcome of \<^verbatim>\<open>fetch\<close>.
  Only \<^verbatim>\<open>HTTPError\<close> is handled; \<^verbatim>\<open>finally: raise error\<close> raises the wrapped error
  when the wrapping succeeded and the HTTP error otherwise.
\<close>

definition malformed_response :: exn where
  "malformed_response =
     AerialException (JStr ''malformed_response'')
       (JStr ''An unexpected response has been received from the server.'')"

definition handle_fetch :: "env \<Rightarrow> exn + response \<Rightarrow> exn + json" where
  "handle_fetch L outcome =
     (case outcome of
        Inl (HTTPError c r) \<Rightarrow>
          (case aerial_error L r of
             Some (ty, msg) \<Rightarrow> Inl (AerialException ty msg)
           | None \<Rightarrow> Inl (HTTPError c r))
      | Inl e \<Rightarrow> Inl e
      | Inr resp \<Rightarrow>
          (case response_body resp of
             None \<Rightarrow> Inr JNull
           | Some b \<Rightarrow>
               if b \<noteq> '''' then
                 (case json_loads L b of
                    Some v \<Rightarrow> Inr v
                  | None \<Rightarrow> Inl malformed_response)
               else Inr JNull))"

definition http_request ::
  "env \<Rightarrow> api_wrapper \<Rightarrow> string \<Rightarrow> string \<Rightarrow> string option \<Rightarrow> nat \<Rightarrow> exn + json" where
  "http_request L self u m b t = handle_fetch L (client self (prepare_request self u m b t))"

subsection \<open>The request methods of \<^verbatim>\<open>ApiWrapper\<close>\<close>

definition list_profiles :: "env \<Rightarrow> api_wrapper \<Rightarrow> exn + json" where
  "list_profiles L self = http_request L self ''/profiles/'' ''GET'' None 30"

text \<open>\<^verbatim>\<open>reset\<close> has no \<^verbatim>\<open>return\<close>: the parsed response is dropped.\<close>

definition reset :: "env \<Rightarrow> api_wrapper \<Rightarrow> exn + json" where
  "reset L self =
     (case http_request L self ''/profiles/'' ''DELETE'' None 30 of
        Inl e \<Rightarrow> Inl e
      | Inr _ \<Rightarrow> Inr JNull)"

definition train :: "env \<Rightarrow> api_wrapper \<Rightarrow> string \<Rightarrow> exn + json" where
  "train L self profile_name =
     http_request L self (''/profiles/'' @ profile_name @ ''/training-sets/'') ''POST'' None 60"

text \<open>\<^verbatim>\<open>json.dumps({'enabled': enabled})\<close> for a boolean.\<close>

definition dumps_enabled :: "bool \<Rightarrow> string" where
  \<open>dumps_enabled enabled = ''{"enabled": '' @ (if enabled then ''true'' else ''false'') @ ''}''\<close>

definition change_status :: "env \<Rightarrow> api_wrapper \<Rightarrow> string \<Rightarrow> bool \<Rightarrow> exn + json" where
  "change_status L self profile_name enabled =
     http_request L self (''/profiles/'' @ profile_name) ''PUT'' (Some (dumps_enabled enabled)) 30"

definition initialize :: "env \<Rightarrow> api_wrapper \<Rightarrow> string \<Rightarrow> exn + json" where
  "initialize L self mode =
     http_request L self (''/initialization/'' @ mode) ''POST'' None 300"

text \<open>
  The five request methods, for statements about all of them: \<open>call\<close> runs one,
  \<open>path_of\<close> is the path it formats and \<open>request_of\<close> the request it hands to
  \<^verbatim>\<open>fetch\<close>.
\<close>

datatype api_call =
    List_profiles
  | Reset
  | Train string
  | Change_status string bool
  | Initialize string

fun call :: "env \<Rightarrow> api_wrapper \<Rightarrow> api_call \<Rightarrow> exn + json" where
  "call L self List_profiles = list_profiles L self"
| "call L self Reset = reset L self"
| "call L self (Train n) = train L self n"
| "call L self (Change_status n e) = change_status L self n e"
| "call L self (Initialize m) = initialize L self m"

fun path_of :: "api_call \<Rightarrow> string" where
  "path_of List_profiles = ''/profiles/''"
| "path_of Reset = ''/profiles/''"
| "path_of (Train n) = ''/profiles/'' @ n @ ''/training-sets/''"
| "path_of (Change_status n e) = ''/profiles/'' @ n"
| "path_of (Initialize m) = ''/initialization/'' @ m"

fun request_of :: "api_wrapper \<Rightarrow> api_call \<Rightarrow> request" where
  "request_of self List_profiles = prepare_request self (path_of List_profiles) ''GET'' None 30"
| "request_of self Reset = prepare_request self (path_of Reset) ''DELETE'' None 30"
| "request_of self (Train n) = prepare_request self (path_of (Train n)) ''POST'' None 60"
| "request_of self (Change_status n e) =
     prepare_request self (path_of (Change_status n e)) ''PUT'' (Some (dumps_enabled e)) 30"
| "request_of self (Initialize m) =
     prepare_request self (path_of (Initialize m)) ''POST'' None 300"

text \<open>The shape \<^verbatim>\<open>{error: {type, message}}\<close> of an error document, as the specification words it.\<close>

definition is_error_document :: "json \<Rightarrow> json \<Rightarrow> json \<Rightarrow> bool" where
  "is_error_document doc ty msg \<longleftrightarrow>
     (\<exists>d ed. doc = JObj d \<and> map_of d ''error'' = Some (JObj ed)
        \<and> map_of ed ''type'' = Some ty \<and> map_of ed ''message'' = Some msg)"

text \<open>A failed request carries an error document when the HTTP error has a response whose body parses to one.\<close>

definition carries_error_document :: "env \<Rightarrow> exn \<Rightarrow> json \<Rightarrow> json \<Rightarrow> bool" where
  "carries_error_document L e ty msg \<longleftrightarrow>
     (\<exists>c b doc. e = HTTPError c (Some (Response (Some b))) \<and> json_loads L b = Some doc
        \<and> is_error_document doc ty msg)"

section \<open>Python operations on received values\<close>

text \<open>
  Subscription \<^verbatim>\<open>v[k]\<close> with a string key: only a dict supports it (\<^verbatim>\<open>KeyError\<close> when
  the key is missing); on every other value Python raises \<^verbatim>\<open>TypeError\<close>.
\<close>

definition getitem :: "json \<Rightarrow> string \<Rightarrow> exn + json" where
  "getitem v k =
     (case v of
        JObj d \<Rightarrow> (case map_of d k of None \<Rightarrow> Inl (PyError ''KeyError'') | Some x \<Rightarrow> Inr x)
      | _ \<Rightarrow> Inl (PyError ''TypeError''))"

text \<open>\<^verbatim>\<open>d.get(k, None)\<close> on a dict.\<close>

definition dict_get :: "(string \<times> json) list \<Rightarrow> string \<Rightarrow> json" where
  "dict_get d k = (case map_of d k of None \<Rightarrow> JNull | Some x \<Rightarrow> x)"

text \<open>
  \<^verbatim>\<open>for x in v\<close>: a list gives its elements, a dict its keys, a string its characters;
  \<^verbatim>\<open>None\<close>, booleans and numbers are not iterable.
\<close>

definition iterate :: "json \<Rightarrow> exn + json list" where
  "iterate v =
     (case v of
        JArr xs \<Rightarrow> Inr xs
      | JObj d \<Rightarrow> Inr (map (\<lambda>kv. JStr (fst kv)) d)
      | JStr s \<Rightarrow> Inr (map (\<lambda>c. JStr [c]) s)
      | _ \<Rightarrow> Inl (PyError ''TypeError''))"

text \<open>Truth value of a received value in \<^verbatim>\<open>if v:\<close>.\<close>

definition truthy :: "json \<Rightarrow> bool" where
  "truthy v =
     (case v of
        JNull \<Rightarrow> False
      | JBool b \<Rightarrow> b
      | JInt i \<Rightarrow> i \<noteq> 0
      | JFloat r \<Rightarrow> r \<noteq> 0
      | JStr s \<Rightarrow> s \<noteq> []
      | JArr xs \<Rightarrow> xs \<noteq> []
      | JObj d \<Rightarrow> d \<noteq> [])"

text \<open>
  \<^verbatim>\<open>s.replace('_', ' ')\<close>: the underscore is one byte, and no other character contains
  that byte.
\<close>

definition replace_underscore :: "string \<Rightarrow> string" where
  "replace_underscore s = map (\<lambda>c. if c = CHR ''_'' then CHR '' '' else c) s"

section \<open>Terminal output and the flow of a command\<close>

text \<open>
  What a command does that can be observed: lines written by \<^verbatim>\<open>print\<close>, the countdown
  and the timer of a training (\<^verbatim>\<open>utils.print_delay\<close>, \<^verbatim>\<open>utils.print_timer\<close>, which only
  write and sleep), the start of the detection thread, the wait in \<^verbatim>\<open>signal.pause()\<close>,
  inside the detection thread \<^verbatim>\<open>signal.alarm\<close>, a call of the listener and the closing of
  the web socket, and, in \<^verbatim>\<open>shutdown\<close>, \<^verbatim>\<open>executor.shutdown(wait = ...)\<close> and
  \<^verbatim>\<open>detection_thread.join(...)\<close> with their arguments. \<open>Print s\<close> is the statement
  \<^verbatim>\<open>print s\<close> executed; the terminal is taken to accept every text.
\<close>

datatype event =
    Print string
  | Print_delay nat
  | Print_timer nat
  | Detection_started
  | Signal_pause
  | Alarm nat
  | Listener json
  | Socket_close
  | Executor_shutdown bool
  | Thread_join nat

text \<open>
  A piece of code yields the events it has produced and either a value or the exception
  that ended it; \<open>bind_run\<close> is sequencing: an exception skips what follows.
\<close>

type_synonym 'a run = "event list \<times> (exn + 'a)"

definition bind_run :: "'a run \<Rightarrow> ('a \<Rightarrow> 'b run) \<Rightarrow> 'b run" where
  "bind_run m f =
     (case m of
        (evs, Inl e) \<Rightarrow> (evs, Inl e)
      | (evs, Inr x) \<Rightarrow> (case f x of (evs', r) \<Rightarrow> (evs @ evs', r)))"

definition raise :: "exn \<Rightarrow> 'a run" where
  "raise e = ([], Inl e)"

definition finish :: "unit run" where
  "finish = ([], Inr ())"

definition print :: "string \<Rightarrow> unit run" where
  "print s = ([Print s], Inr ())"

definition lift :: "exn + 'a \<Rightarrow> 'a run" where
  "lift r = ([], r)"

fun for_each :: "('a \<Rightarrow> unit run) \<Rightarrow> 'a list \<Rightarrow> unit run" where
  "for_each f [] = finish"
| "for_each f (x # xs) = bind_run (f x) (\<lambda>_. for_each f xs)"

section \<open>Presentation (\<^verbatim>\<open>utils.py\<close>)\<close>

definition DATETIME_FORMAT_FULL :: nat where
  "DATETIME_FORMAT_FULL = 0"

definition DATETIME_FORMAT_TIME :: nat where
  "DATETIME_FORMAT_TIME = 1"

definition format_datetime :: "env \<Rightarrow> json \<Rightarrow> nat \<Rightarrow> exn + string" where
  "format_datetime L naive_date fmt =
     (case map_of [(DATETIME_FORMAT_FULL, ''%Y-%m-%d  %I:%M:%S %p''),
                   (DATETIME_FORMAT_TIME, ''%I:%M:%S %p'')] fmt of
        None \<Rightarrow> Inl (PyError ''KeyError'')
      | Some format_string \<Rightarrow>
          (case strftime_local L naive_date format_string of
             Inl cls \<Rightarrow> Inl (PyError cls)
           | Inr s \<Rightarrow> Inr s))"

definition print_profile :: "env \<Rightarrow> json \<Rightarrow> unit run" where
  "print_profile L profile =
     bind_run (lift (getitem profile ''enabled'')) (\<lambda>enabled.
     bind_run (lift (getitem profile ''name'')) (\<lambda>name.
     bind_run (lift (case format_name_status L name
                            (if truthy enabled then ''Enabled'' else ''Disabled'') of
                       Inl cls \<Rightarrow> Inl (PyError cls)
                     | Inr line \<Rightarrow> Inr line)) (\<lambda>line.
     bind_run (print (colored L line (Some ''magenta'') [''bold'', ''underline''])) (\<lambda>_.
     bind_run (lift (getitem profile ''trainingSets'')) (\<lambda>training_sets.
     bind_run (lift (iterate training_sets)) (\<lambda>sets.
     bind_run (for_each (\<lambda>training_set.
         bind_run (lift (getitem training_set ''date'')) (\<lambda>date.
         bind_run (lift (format_datetime L date DATETIME_FORMAT_FULL)) print)) sets) (\<lambda>_.
     print '''')))))))"

text \<open>
  \<^verbatim>\<open>print_api_error\<close>: \<^verbatim>\<open>.replace\<close> exists on a string only (\<^verbatim>\<open>AttributeError\<close>), and
  only a string can be appended to the coloured prefix (\<^verbatim>\<open>TypeError\<close>).
\<close>

definition error_line :: "env \<Rightarrow> string \<Rightarrow> string \<Rightarrow> string" where
  "error_line L ty msg =
     colored L (''['' @ str_upper L (replace_underscore ty) @ ''] '') (Some ''red'') [''bold'']
       @ msg"

definition print_api_error :: "env \<Rightarrow> json \<Rightarrow> json \<Rightarrow> unit run" where
  "print_api_error L ty msg =
     (case ty of
        JStr t \<Rightarrow>
          (case msg of
             JStr m \<Rightarrow> print (error_line L t m)
           | _ \<Rightarrow> raise (PyError ''TypeError''))
      | _ \<Rightarrow> raise (PyError ''AttributeError''))"

section \<open>The commands (\<^verbatim>\<open>application.py\<close>)\<close>

text \<open>
  \<^verbatim>\<open>handle_api_errors\<close> applied to the outcome of the decorated function: the two
  \<^verbatim>\<open>except\<close> clauses catch \<^verbatim>\<open>AerialException\<close> and \<^verbatim>\<open>socket.error\<close>; the wrapper
  returns nothing.
\<close>

definition socket_error_message :: "string option \<Rightarrow> string" where
  "socket_error_message strerror = (case strerror of None \<Rightarrow> ''None'' | Some s \<Rightarrow> s) @ ''.''"

definition handle_api_errors :: "env \<Rightarrow> 'a run \<Rightarrow> unit run" where
  "handle_api_errors L r =
     (case r of
        (evs, Inr _) \<Rightarrow> (evs, Inr ())
      | (evs, Inl (AerialException ty msg)) \<Rightarrow>
          bind_run (evs, Inr ()) (\<lambda>_. print_api_error L ty msg)
      | (evs, Inl (SocketError strerror)) \<Rightarrow>
          bind_run (evs, Inr ()) (\<lambda>_.
            print_api_error L (JStr ''socket_error'') (JStr (socket_error_message strerror)))
      | (evs, Inl e) \<Rightarrow> (evs, Inl e))"

definition app_list_profiles :: "env \<Rightarrow> api_wrapper \<Rightarrow> unit run" where
  "app_list_profiles L api =
     bind_run (lift (list_profiles L api)) (\<lambda>result.
     bind_run (lift (iterate result)) (\<lambda>ps.
     for_each (print_profile L) ps))"

definition app_reset :: "env \<Rightarrow> api_wrapper \<Rightarrow> unit run" where
  "app_reset L api =
     bind_run (lift (reset L api)) (\<lambda>_. print ''All profiles are reset.'')"

text \<open>
  \<^verbatim>\<open>train\<close>: the call runs on the executor; \<^verbatim>\<open>task.result()\<close> returns its value or
  raises its exception in the calling thread, after both displays.
\<close>

definition app_train :: "env \<Rightarrow> api_wrapper \<Rightarrow> string \<Rightarrow> unit run" where
  \<open>app_train L api profile_name =
     bind_run ([Print_delay 5, Print_timer 45], Inr ()) (\<lambda>_.
     bind_run (lift (train L api profile_name)) (\<lambda>result.
     if result \<noteq> JNull then
       bind_run (lift (getitem result ''date'')) (\<lambda>date.
       bind_run (lift (format_datetime L date DATETIME_FORMAT_FULL)) (\<lambda>d.
       print (''Training set added for profile "'' @ profile_name @ ''" ['' @ d @ ''].'')))
     else finish))\<close>

definition app_enable :: "env \<Rightarrow> api_wrapper \<Rightarrow> string \<Rightarrow> unit run" where
  "app_enable L api profile_name =
     bind_run (lift (change_status L api profile_name True)) (\<lambda>_.
     print (''Profile '' @ profile_name @ '' is enabled.''))"

definition app_disable :: "env \<Rightarrow> api_wrapper \<Rightarrow> string \<Rightarrow> unit run" where
  "app_disable L api profile_name =
     bind_run (lift (change_status L api profile_name False)) (\<lambda>_.
     print (''Profile '' @ profile_name @ '' is disabled.''))"

definition unknown_error :: exn where
  "unknown_error =
     AerialException (JStr ''unknown_error'')
       (JStr ''Unexpected response received from server during initialization.'')"

definition banner :: "string option \<Rightarrow> string" where
  "banner expiry_date =
     (case expiry_date of
        Some t \<Rightarrow> ''Detection is about to begin and expires at '' @ t
                    @ ''. Press Ctrl+C to stop.\<newline>''
      | None \<Rightarrow> ''Detection is about to begin. Press Ctrl+C to stop.\<newline>'')"

text \<open>
  \<^verbatim>\<open>detect\<close>: \<^verbatim>\<open>.get\<close> exists on a dict only (\<^verbatim>\<open>AttributeError\<close> otherwise). Starting the
  stream is the event \<open>Detection_started\<close> (the thread runs the loop of the next section
  with \<^verbatim>\<open>utils.print_detection\<close> as listener), followed by \<^verbatim>\<open>signal.pause()\<close>.
\<close>

definition app_detect :: "env \<Rightarrow> api_wrapper \<Rightarrow> string \<Rightarrow> unit run" where
  "app_detect L api mode =
     bind_run (print ''Initializing...\<newline>'') (\<lambda>_.
     bind_run (lift (initialize L api mode)) (\<lambda>init_result.
     case init_result of
       JObj d \<Rightarrow>
         if dict_get d ''profiles'' = JNull then raise unknown_error
         else
           bind_run
             (if mode = ''room'' \<and> dict_get d ''expiry'' \<noteq> JNull then
                bind_run (lift (format_datetime L (dict_get d ''expiry'') DATETIME_FORMAT_TIME))
                  (\<lambda>expiry_date. print (banner (Some expiry_date)))
              else print (banner None))
             (\<lambda>_. ([Detection_started, Signal_pause], Inr ()))
     | _ \<Rightarrow> raise (PyError ''AttributeError'')))"

text \<open>The six decorated methods of \<^verbatim>\<open>Application\<close>, as \<^verbatim>\<open>main\<close> dispatches to them.\<close>

datatype command =
    List_command
  | Reset_command
  | Train_command string
  | Enable_command string
  | Disable_command string
  | Detect_command string

fun command_body :: "env \<Rightarrow> api_wrapper \<Rightarrow> command \<Rightarrow> unit run" where
  "command_body L api List_command = app_list_profiles L api"
| "command_body L api Reset_command = app_reset L api"
| "command_body L api (Train_command n) = app_train L api n"
| "command_body L api (Enable_command n) = app_enable L api n"
| "command_body L api (Disable_command n) = app_disable L api n"
| "command_body L api (Detect_command m) = app_detect L api m"

definition run_command :: "env \<Rightarrow> api_wrapper \<Rightarrow> command \<Rightarrow> unit run" where
  "run_command L api c = handle_api_errors L (command_body L api c)"

text \<open>The request a command sends first.\<close>

fun first_call :: "command \<Rightarrow> api_call" where
  "first_call List_command = List_profiles"
| "first_call Reset_command = Reset"
| "first_call (Train_command n) = Train n"
| "first_call (Enable_command n) = Change_status n True"
| "first_call (Disable_command n) = Change_status n False"
| "first_call (Detect_command m) = Initialize m"

section \<open>The detection stream (\<^verbatim>\<open>ApiWrapper.detect\<close> and \<^verbatim>\<open>ApiWrapper.stop\<close>)\<close>

text \<open>\<^verbatim>\<open>stop\<close> assigns the flag and returns.\<close>

definition stop :: "api_wrapper \<Rightarrow> api_wrapper" where
  "stop self = self\<lparr>stop_detection := True\<rparr>"

text \<open>
  The coroutine \<^verbatim>\<open>__connect\<close> runs on its own thread while the foreground thread may call
  \<^verbatim>\<open>stop\<close> at any moment, so it is modelled statement by statement. A \<open>label\<close> is the
  statement to execute next:
  \<^item> \<open>Connect\<close>: line 119, \<^verbatim>\<open>websocket_connect\<close>;
  \<^item> \<open>While\<close>: line 122, the test of the outer loop;
  \<^item> \<open>Read_message\<close>: line 124, \<^verbatim>\<open>socket.read_message()\<close>;
  \<^item> \<open>Check_closed\<close>: line 127; \<open>Check_stop\<close>: line 133; \<open>Check_frame\<close>: line 136;
  \<^item> \<open>Sleep\<close>: line 141, \<^verbatim>\<open>gen.sleep(0.5)\<close>;
  \<^item> \<open>Close\<close>: line 144; \<open>Finished\<close>: the coroutine has returned;
  \<^item> \<open>Raised e\<close>: the coroutine has ended with the exception \<open>e\<close>.
\<close>

datatype label =
    Connect
  | While
  | Read_message
  | Check_closed
  | Check_stop
  | Check_frame
  | Sleep
  | Close
  | Finished
  | Raised exn

text \<open>
  \<^verbatim>\<open>message_future\<close>: not done, or done with a result, which is \<^verbatim>\<open>None\<close> when the peer
  has closed the connection.
\<close>

datatype future = Pending | Done "string option"

datatype websocket = Opened | Closed

record loop_state =
  self :: api_wrapper
  pc :: label
  socket :: "websocket option"
  message_future :: future
  events :: "event list"

text \<open>
  What the surroundings do before one statement of the coroutine:
  \<^item> \<open>stop_called\<close>: the foreground thread has run \<^verbatim>\<open>stop()\<close>;
  \<^item> \<open>connected\<close>: the outcome of \<^verbatim>\<open>websocket_connect\<close> (an exception, or none);
  \<^item> \<open>arrival\<close>: what the socket has for the future, seen when \<^verbatim>\<open>read_message()\<close>
    creates it and when \<^verbatim>\<open>gen.sleep\<close> gives control to the event loop (a future is
    resolved by the event loop only, which runs on the coroutine's own thread).
\<close>

record tick =
  stop_called :: bool
  connected :: "exn option"
  arrival :: future

definition connection_lost :: string where
  "connection_lost = ''\<newline>Connection with aerial Devkit lost.\<newline>''"

definition statement :: "env \<Rightarrow> (json \<Rightarrow> exn option) \<Rightarrow> tick \<Rightarrow> loop_state \<Rightarrow> loop_state" where
  "statement L listener t s =
     (case pc s of
        Connect \<Rightarrow>
          (case connected t of
             Some e \<Rightarrow> s\<lparr>pc := Raised e\<rparr>
           | None \<Rightarrow> s\<lparr>socket := Some Opened, pc := While\<rparr>)
      | While \<Rightarrow>
          if \<not> stop_detection (self s) then s\<lparr>pc := Read_message\<rparr> else s\<lparr>pc := Close\<rparr>
      | Read_message \<Rightarrow> s\<lparr>message_future := arrival t, pc := Check_closed\<rparr>
      | Check_closed \<Rightarrow>
          if message_future s = Done None then
            s\<lparr>self := (self s)\<lparr>stop_detection := True\<rparr>,
              events := events s @ [Print connection_lost, Alarm 1],
              pc := While\<rparr>
          else s\<lparr>pc := Check_stop\<rparr>
      | Check_stop \<Rightarrow>
          if stop_detection (self s) then s\<lparr>pc := While\<rparr> else s\<lparr>pc := Check_frame\<rparr>
      | Check_frame \<Rightarrow>
          (case message_future s of
             Pending \<Rightarrow> s\<lparr>pc := Sleep\<rparr>
           | Done None \<Rightarrow> s\<lparr>pc := Raised (PyError ''TypeError'')\<rparr>
           | Done (Some m) \<Rightarrow>
               (case json_loads L m of
                  None \<Rightarrow> s\<lparr>pc := Raised (PyError ''ValueError'')\<rparr>
                | Some detection_result \<Rightarrow>
                    (case listener detection_result of
                       Some e \<Rightarrow>
                         s\<lparr>events := events s @ [Listener detection_result], pc := Raised e\<rparr>
                     | None \<Rightarrow>
                         s\<lparr>events := events s @ [Listener detection_result], pc := While\<rparr>)))
      | Sleep \<Rightarrow>
          s\<lparr>message_future :=
              (if message_future s = Pending then arrival t else message_future s),
            pc := Check_closed\<rparr>
      | Close \<Rightarrow>
          (case socket s of
             None \<Rightarrow> s\<lparr>pc := Finished\<rparr>
           | Some _ \<Rightarrow>
               s\<lparr>socket := Some Closed, events := events s @ [Socket_close], pc := Finished\<rparr>)
      | Finished \<Rightarrow> s
      | Raised e \<Rightarrow> s)"

text \<open>One step: a call of \<^verbatim>\<open>stop\<close> by the foreground, if any, then the next statement.\<close>

definition step :: "env \<Rightarrow> (json \<Rightarrow> exn option) \<Rightarrow> tick \<Rightarrow> loop_state \<Rightarrow> loop_state" where
  "step L listener t s =
     statement L listener t (if stop_called t then s\<lparr>self := stop (self s)\<rparr> else s)"

fun run :: "env \<Rightarrow> (json \<Rightarrow> exn option) \<Rightarrow> tick list \<Rightarrow> loop_state \<Rightarrow> loop_state" where
  "run L listener [] s = s"
| "run L listener (t # ts) s = run L listener ts (step L listener t s)"

text \<open>The state in which the thread created by \<^verbatim>\<open>detect\<close> starts the coroutine.\<close>

definition detect :: "api_wrapper \<Rightarrow> loop_state" where
  "detect w = \<lparr>self = w, pc = Connect, socket = None, message_future = Pending, events = []\<rparr>"

text \<open>The results handed to the listener, and the number of alarms, in a list of events.\<close>

fun listener_calls :: "event list \<Rightarrow> json list" where
  "listener_calls [] = []"
| "listener_calls (Listener r # evs) = r # listener_calls evs"
| "listener_calls (_ # evs) = listener_calls evs"

fun alarms :: "event list \<Rightarrow> nat" where
  "alarms [] = 0"
| "alarms (Alarm n # evs) = Suc (alarms evs)"
| "alarms (_ # evs) = alarms evs"

text \<open>The statements of the loop at which the stop flag has still to be looked at before a frame is delivered.\<close>

definition before_stop_check :: "label \<Rightarrow> bool" where
  "before_stop_check l \<longleftrightarrow> l \<in> {While, Read_message, Check_closed, Check_stop, Sleep}"

text \<open>
  Once the stop flag is set, the number of statements the coroutine still executes from a
  statement of the loop, at most; and the states in which it is on its way out.
\<close>

definition steps_to_finish :: "label \<Rightarrow> nat" where
  "steps_to_finish l =
     (case l of
        Read_message \<Rightarrow> 5
      | Sleep \<Rightarrow> 5
      | Check_closed \<Rightarrow> 4
      | Check_stop \<Rightarrow> 3
      | While \<Rightarrow> 2
      | Close \<Rightarrow> 1
      | _ \<Rightarrow> 0)"

definition stopping :: "loop_state \<Rightarrow> bool" where
  "stopping s \<longleftrightarrow>
     stop_detection (self s) \<and> (before_stop_check (pc s) \<or> pc s = Close \<or> pc s = Finished)"

text \<open>
  What holds of every state of a run that starts with \<open>detect\<close>: an alarm has been raised
  at most once, and then the flag is set and the loop has been left; the coroutine returns
  with the socket closed; inside the loop the socket is open.
\<close>

definition loop_invariant :: "loop_state \<Rightarrow> bool" where
  "loop_invariant s \<longleftrightarrow>
     (alarms (events s) = 0
        \<or> alarms (events s) = 1 \<and> stop_detection (self s) \<and> pc s \<in> {While, Close, Finished})
     \<and> (pc s = Finished \<longrightarrow> socket s = Some Closed \<and> events s \<noteq> [] \<and> last (events s) = Socket_close)
     \<and> (pc s \<in> {While, Read_message, Check_closed, Check_stop, Check_frame, Sleep, Close}
          \<longrightarrow> socket s = Some Opened)"

section \<open>Shutdown (\<^verbatim>\<open>Application.shutdown\<close>)\<close>

text \<open>
  The application object: its API client, and the thread that \<^verbatim>\<open>detect\<close> stores when it
  starts the stream (\<^verbatim>\<open>None\<close> until then). The executor has no state of its own here: the
  call of its \<^verbatim>\<open>shutdown\<close> is an event.
\<close>

datatype thread = Thread

record application =
  api_wrapper :: api_wrapper
  detection_thread :: "thread option"

text \<open>\<^verbatim>\<open>Application.__init__\<close>, with the \<^verbatim>\<open>ApiWrapper\<close> it creates.\<close>

definition new_application :: "api_wrapper \<Rightarrow> application" where
  "new_application w = \<lparr>api_wrapper = w, detection_thread = None\<rparr>"

text \<open>
  \<^verbatim>\<open>shutdown\<close>: \<^verbatim>\<open>stop()\<close> on the client, \<^verbatim>\<open>executor.shutdown(wait = False)\<close>, and
  \<^verbatim>\<open>join(3)\<close> on the detection thread when there is one.
\<close>

definition shutdown :: "application \<Rightarrow> application \<times> event list" where
  "shutdown app =
     (app\<lparr>api_wrapper := stop (api_wrapper app)\<rparr>,
      Executor_shutdown False
        # (if detection_thread app \<noteq> None then [Thread_join 3] else []))"

text \<open>
  The time, in seconds, for which the calling thread is blocked by a list of events, given
  the time for which each of them blocks.
\<close>

definition blocked_for :: "(event \<Rightarrow> real) \<Rightarrow> event list \<Rightarrow> real" where
  "blocked_for blocks evs = sum_list (map blocks evs)"

section \<open>Concrete libraries, servers and responses\<close>

text \<open>
  An instance of the libraries for evaluating the program on concrete inputs:
  \<^verbatim>\<open>json.loads\<close> on the documents listed below (anything else is not JSON here), ANSI
  colours disabled (termcolor then returns the text as it is), UTC as the local time
  zone, for the one date that is used, and \<^verbatim>\<open>.upper()\<close> as it is on ASCII text, which is
  all that is printed below.
\<close>

definition documents :: "(string \<times> json) list" where
  \<open>documents =
     [(''[]'', JArr []),
      (''{}'', JObj []),
      (''{"error": {"type": "not_found", "message": "No such profile."}}'',
         JObj [(''error'', JObj [(''type'', JStr ''not_found''),
                                 (''message'', JStr ''No such profile.'')])]),
      (''{"profiles": null}'', JObj [(''profiles'', JNull)]),
      (''{"profiles": []}'', JObj [(''profiles'', JArr [])]),
      (''{"profiles": [], "expiry": "2016-05-01T10:00:00Z"}'',
         JObj [(''profiles'', JArr []), (''expiry'', JStr ''2016-05-01T10:00:00Z'')]),
      (''{"results": "kitchen"}'', JObj [(''results'', JStr ''kitchen'')])]\<close>

definition ascii_upper :: "string \<Rightarrow> string" where
  "ascii_upper s =
     map (\<lambda>c. if 97 \<le> (of_char c :: nat) \<and> (of_char c :: nat) \<le> 122
               then char_of ((of_char c :: nat) - 32) else c) s"

definition libs :: env where
  "libs =
     \<lparr>json_loads = map_of documents,
      strftime_local = (\<lambda>d f.
         if d = JStr ''2016-05-01T10:00:00Z'' \<and> f = ''%I:%M:%S %p'' then Inr ''10:00:00 AM''
         else Inl ''ValueError''),
      colored = (\<lambda>text color attrs. text),
      format_name_status = (\<lambda>name status.
         Inr ((case name of JStr n \<Rightarrow> n @ replicate (15 - length n) CHR '' '' | _ \<Rightarrow> [])
                @ replicate (8 - length status) CHR '' '' @ status)),
      str_upper = ascii_upper\<rparr>"

text \<open>A client of the DevKit at 192.168.1.10 whose every request has the given outcome.\<close>

definition devkit :: "exn + response \<Rightarrow> api_wrapper" where
  "devkit outcome =
     \<lparr>server = ''192.168.1.10'', port = 80, client = (\<lambda>_. outcome), stop_detection = False\<rparr>"

definition answers :: "string \<Rightarrow> exn + response" where
  "answers b = Inr (Response (Some b))"

definition fails_with :: "int \<Rightarrow> string \<Rightarrow> exn + response" where
  "fails_with status b = Inl (HTTPError status (Some (Response (Some b))))"

definition connection_refused :: "exn + response" where
  "connection_refused = Inl (SocketError (Some ''Connection refused''))"

text \<open>A listener that never raises, and surroundings that do nothing.\<close>

definition quiet_listener :: "json \<Rightarrow> exn option" where
  "quiet_listener r = None"

definition idle :: tick where
  "idle = \<lparr>stop_called = False, connected = None, arrival = Pending\<rparr>"

definition delivers :: "string option \<Rightarrow> tick" where
  "delivers m = \<lparr>stop_called = False, connected = None, arrival = Done m\<rparr>"

definition stops :: tick where
  "stops = \<lparr>stop_called = True, connected = None, arrival = Pending\<rparr>"

text \<open>
  Two states of the detection thread of a client: connected, a frame has arrived and the
  stop flag is looked at next; and connected, with the connection closed by the peer
  before any frame.
\<close>

definition frame_arrived :: loop_state where
  \<open>frame_arrived =
     run libs quiet_listener [idle, idle, delivers (Some ''{"results": "kitchen"}''), idle]
       (detect (devkit (answers ''{}'')))\<close>

definition peer_closed :: loop_state where
  "peer_closed =
     run libs quiet_listener [idle, idle, delivers None] (detect (devkit (answers ''{}'')))"

text \<open>
  A frame that is not JSON arrives on the stream of a client; an application whose stream
  is running; and the blocking times of a machine on which the detection thread never
  ends: \<^verbatim>\<open>join(n)\<close> blocks for its whole timeout, a shutdown of the executor that waits
  blocks for a minute, nothing else blocks.
\<close>

definition bad_frame :: loop_state where
  "bad_frame =
     run libs quiet_listener
       [idle, idle, delivers (Some ''oops''), idle, idle, idle, stops, idle, idle]
       (detect (devkit (answers ''{}'')))"

definition streaming :: application where
  "streaming = (new_application (devkit (answers ''{}'')))\<lparr>detection_thread := Some Thread\<rparr>"

definition stuck_thread :: "event \<Rightarrow> real" where
  "stuck_thread ev =
     (case ev of
        Thread_join n \<Rightarrow> real n
      | Executor_shutdown wait \<Rightarrow> if wait then 60 else 0
      | _ \<Rightarrow> 0)"

section \<open>Properties of the API client\<close>

lemma call_unfold:
  "call L w c =
     (case handle_fetch L (client w (request_of w c)) of
        Inl e \<Rightarrow> Inl e
      | Inr v \<Rightarrow> Inr (if c = Reset then JNull else v))"
  by (cases c)
     (simp_all add: list_profiles_def reset_def train_def change_status_def initialize_def
        http_request_def split: sum.splits)

lemma aerial_error_Some:
  "aerial_error L r = Some (ty, msg) \<longleftrightarrow>
     (\<exists>b doc. r = Some (Response (Some b)) \<and> json_loads L b = Some doc
        \<and> is_error_document doc ty msg)"
proof
  assume "aerial_error L r = Some (ty, msg)"
  then show "\<exists>b doc. r = Some (Response (Some b)) \<and> json_loads L b = Some doc
        \<and> is_error_document doc ty msg"
    unfolding aerial_error_def is_error_document_def
    by (auto split: option.splits json.splits elim!: response_body.elims)
next
  assume "\<exists>b doc. r = Some (Response (Some b)) \<and> json_loads L b = Some doc
        \<and> is_error_document doc ty msg"
  then show "aerial_error L r = Some (ty, msg)"
    unfolding aerial_error_def is_error_document_def by auto
qed

lemma handle_fetch_error:
  "handle_fetch L (Inl e) =
     (case e of
        HTTPError c r \<Rightarrow>
          (case aerial_error L r of
             Some (ty, msg) \<Rightarrow> Inl (AerialException ty msg)
           | None \<Rightarrow> Inl e)
      | _ \<Rightarrow> Inl e)"
  by (simp add: handle_fetch_def split: exn.splits option.splits)

lemma call_wraps_error_document:
  assumes "client w (request_of w c) = Inl e" and "carries_error_document L e ty msg"
  shows "call L w c = Inl (AerialException ty msg)"
proof -
  from assms(2) obtain c' b doc where e: "e = HTTPError c' (Some (Response (Some b)))"
    and "json_loads L b = Some doc" "is_error_document doc ty msg"
    unfolding carries_error_document_def by blast
  then have "aerial_error L (Some (Response (Some b))) = Some (ty, msg)"
    using aerial_error_Some by blast
  then show ?thesis
    using assms(1) e by (simp add: call_unfold handle_fetch_error)
qed

lemma call_reraises:
  assumes "client w (request_of w c) = Inl e"
    and none: "\<nexists>ty' msg'. carries_error_document L e ty' msg'"
  shows "call L w c = Inl e"
proof (cases e)
  case (HTTPError c' r)
  have "aerial_error L r = None"
  proof (cases "aerial_error L r")
    case (Some p)
    obtain ty' msg' where "p = (ty', msg')" by (cases p)
    with Some have "carries_error_document L e ty' msg'"
      unfolding carries_error_document_def HTTPError using aerial_error_Some by blast
    with none show ?thesis by blast
  qed simp
  then show ?thesis using assms(1) HTTPError by (simp add: call_unfold handle_fetch_error)
qed (use assms(1) in \<open>simp_all add: call_unfold handle_fetch_error\<close>)

text \<open>
  C2. When \<^verbatim>\<open>fetch\<close> raises, every request method raises in turn: if the error is an HTTP
  error whose response body parses to a document of shape \<^verbatim>\<open>{error: {type, message}}\<close>,
  an \<open>AerialException\<close> with exactly that type and that message; in every other case
  (a socket error, an HTTP error without such a body) the error that \<^verbatim>\<open>fetch\<close> raised,
  unchanged.
\<close>

theorem http_error_mapping:
  assumes "client w (request_of w c) = Inl e"
  shows "(carries_error_document L e ty msg \<longrightarrow> call L w c = Inl (AerialException ty msg))
       \<and> ((\<nexists>ty' msg'. carries_error_document L e ty' msg') \<longrightarrow> call L w c = Inl e)"
  using assms call_wraps_error_document call_reraises by blast

theorem http_error_mapping_witness:
  \<open>call libs (devkit (fails_with 404
        ''{"error": {"type": "not_found", "message": "No such profile."}}'')) (Train ''alice'')
     = Inl (AerialException (JStr ''not_found'') (JStr ''No such profile.''))
   \<and> call libs (devkit connection_refused) List_profiles
     = Inl (SocketError (Some ''Connection refused''))
   \<and> call libs (devkit (fails_with 500 ''Internal Server Error'')) Reset
     = Inl (HTTPError 500 (Some (Response (Some ''Internal Server Error''))))\<close>
proof -
  let ?b = \<open>''{"error": {"type": "not_found", "message": "No such profile."}}''\<close>
  have 1: "carries_error_document libs (HTTPError 404 (Some (Response (Some ?b))))
             (JStr ''not_found'') (JStr ''No such profile.'')"
    unfolding carries_error_document_def is_error_document_def
    by (simp add: libs_def documents_def)
  have 2: "\<nexists>ty' msg'. carries_error_document libs (SocketError (Some ''Connection refused'')) ty' msg'"
    by (simp add: carries_error_document_def)
  have 3: "\<nexists>ty' msg'. carries_error_document libs
             (HTTPError 500 (Some (Response (Some ''Internal Server Error'')))) ty' msg'"
    by (simp add: carries_error_document_def libs_def documents_def)
  show ?thesis
    using http_error_mapping [of "devkit (fails_with 404 ?b)" "Train ''alice''" _ libs
        "JStr ''not_found''" "JStr ''No such profile.''"] 1
      http_error_mapping [of "devkit connection_refused" List_profiles _ libs] 2
      http_error_mapping [of "devkit (fails_with 500 ''Internal Server Error'')" Reset _ libs] 3
    by (simp add: devkit_def fails_with_def connection_refused_def)
qed

lemma handle_fetch_success:
  "handle_fetch L (Inr (Response b)) =
     (case b of
        None \<Rightarrow> Inr JNull
      | Some s \<Rightarrow>
          if s = [] then Inr JNull
          else (case json_loads L s of None \<Rightarrow> Inl malformed_response | Some v \<Rightarrow> Inr v))"
  by (simp add: handle_fetch_def split: option.splits)

text \<open>
  C3, as the code has it. When \<^verbatim>\<open>fetch\<close> returns a response (a 2xx status), every request
  method returns no value and raises nothing on an empty body, and raises the
  \<open>AerialException\<close> of type \<^verbatim>\<open>malformed_response\<close> on a non-empty body that is not JSON. On
  a body that is JSON, \<^verbatim>\<open>__http_request\<close> returns the parsed value, and so do
  \<^verbatim>\<open>list_profiles\<close>, \<^verbatim>\<open>train\<close>, \<^verbatim>\<open>change_status\<close> and \<^verbatim>\<open>initialize\<close>; \<^verbatim>\<open>reset\<close> drops it and
  returns no value.
\<close>

theorem success_response_handling:
  assumes "client w (request_of w c) = Inr (Response b)"
  shows "(b = None \<or> b = Some [] \<longrightarrow> call L w c = Inr JNull)
       \<and> (\<forall>s. b = Some s \<and> s \<noteq> [] \<and> json_loads L s = None
              \<longrightarrow> call L w c = Inl malformed_response)
       \<and> (\<forall>s v. b = Some s \<and> s \<noteq> [] \<and> json_loads L s = Some v
              \<longrightarrow> handle_fetch L (client w (request_of w c)) = Inr v
                \<and> call L w c = Inr (if c = Reset then JNull else v))"
  using assms by (auto simp add: call_unfold handle_fetch_success)

theorem success_response_handling_witness:
  \<open>call libs (devkit (answers [])) (Change_status ''alice'' True) = Inr JNull
   \<and> call libs (devkit (answers ''<html>'')) List_profiles = Inl malformed_response
   \<and> call libs (devkit (answers ''{"profiles": []}'')) (Initialize ''home'')
       = Inr (JObj [(''profiles'', JArr [])])
   \<and> call libs (devkit (answers ''{"profiles": []}'')) Reset = Inr JNull\<close>
  using success_response_handling [of "devkit (answers [])" "Change_status ''alice'' True" "Some []" libs]
    success_response_handling [of "devkit (answers ''<html>'')" List_profiles "Some ''<html>''" libs]
    success_response_handling [of \<open>devkit (answers ''{"profiles": []}'')\<close> "Initialize ''home''"
      \<open>Some ''{"profiles": []}''\<close> libs]
    success_response_handling [of \<open>devkit (answers ''{"profiles": []}'')\<close> Reset
      \<open>Some ''{"profiles": []}''\<close> libs]
  by (simp add: devkit_def answers_def libs_def documents_def)

text \<open>
  C3 as stated fails for \<^verbatim>\<open>reset\<close>: the server answers the DELETE request with the JSON
  body \<^verbatim>\<open>[]\<close>, which parses to the empty list, and \<^verbatim>\<open>reset\<close> does not return it.
\<close>

theorem reset_drops_parsed_value:
  "client (devkit (answers ''[]'')) (request_of (devkit (answers ''[]'')) Reset)
     = Inr (Response (Some ''[]''))
   \<and> json_loads libs ''[]'' = Some (JArr [])
   \<and> call libs (devkit (answers ''[]'')) Reset \<noteq> Inr (JArr [])"
  by (simp add: call_unfold handle_fetch_success devkit_def answers_def libs_def documents_def)

subsection \<open>The request URL\<close>

declare str_nat.simps [simp del]

lemma quote_append: "quote (a @ b) = quote a @ quote b"
  by (simp add: quote_def)

lemma quote_single:
  "quote [ch] =
     (if ch \<in> set always_safe \<or> ch = CHR ''/'' then [ch]
      else [CHR ''%'', hex_digit (of_char ch div 16), hex_digit (of_char ch mod 16)])"
  by (simp add: quote_def quoter_def)

lemma hex_digit_safe: "hex_digit n \<in> set always_safe"
proof -
  have "n mod 16 < length ''0123456789ABCDEF''" by simp
  then have "hex_digit n \<in> set ''0123456789ABCDEF''"
    unfolding hex_digit_def by (rule nth_mem)
  then show ?thesis by (auto simp add: always_safe_def)
qed

lemma set_quote: "set (quote s) \<subseteq> set always_safe \<union> {CHR ''/'', CHR ''%''}"
  by (induction s) (auto simp add: quote_def quoter_def hex_digit_safe)

lemma space_unsafe: "CHR '' '' \<notin> set always_safe \<and> CHR '' '' \<noteq> CHR ''/''"
  by (simp add: always_safe_def)

lemma non_ascii_unsafe:
  assumes "128 \<le> (of_char ch :: nat)"
  shows "ch \<notin> set always_safe \<and> ch \<noteq> CHR ''/''"
proof -
  have "\<forall>x \<in> set (always_safe @ ''/''). (of_char x :: nat) < 128"
    by (simp add: always_safe_def)
  with assms show ?thesis by fastforce
qed

lemma quote_fixed_paths:
  "quote ''/profiles/'' = ''/profiles/''"
  "quote ''/training-sets/'' = ''/training-sets/''"
  "quote ''/initialization/'' = ''/initialization/''"
  by (simp_all add: quote_def quoter_def always_safe_def)

lemma url_request_of:
  "url (request_of w c) =
     ''http://'' @ server w @ '':'' @ str_int (port w) @ ''/api'' @ quote (path_of c)"
  by (cases c) (simp_all add: prepare_request_def Let_def del: path_of.simps)

lemma str_int_80: "str_int 80 = ''80''"
  by (simp add: str_int_def str_nat.simps)

text \<open>
  C9, as the code has it. Every request method sends the URL made of the base and the
  quoted path. Quoting works byte by byte: letters, digits, \<^verbatim>\<open>_\<close>, \<^verbatim>\<open>.\<close>, \<^verbatim>\<open>-\<close> and the
  slash are sent as they are, every other byte (a space and every non-ASCII byte among
  them) as \<^verbatim>\<open>%\<close> and two upper-case hexadecimal digits; so the fixed parts of a path are
  unchanged, a name inside it is quoted, and the quoted path consists of letters, digits,
  \<^verbatim>\<open>_.-\<close>, \<^verbatim>\<open>/\<close> and \<^verbatim>\<open>%\<close> only. A slash in a profile name is not encoded.
\<close>

theorem request_path_quoting:
  "url (request_of w c) =
     ''http://'' @ server w @ '':'' @ str_int (port w) @ ''/api'' @ quote (path_of c)
   \<and> quote (path_of (Train n)) = ''/profiles/'' @ quote n @ ''/training-sets/''
   \<and> quote (path_of (Change_status n e)) = ''/profiles/'' @ quote n
   \<and> quote (path_of (Initialize n)) = ''/initialization/'' @ quote n
   \<and> quote (a @ b) = quote a @ quote b
   \<and> quote [ch] =
       (if ch \<in> set always_safe \<or> ch = CHR ''/'' then [ch]
        else [CHR ''%'', hex_digit (of_char ch div 16), hex_digit (of_char ch mod 16)])
   \<and> (ch = CHR '' '' \<or> 128 \<le> (of_char ch :: nat) \<longrightarrow> ch \<notin> set always_safe \<and> ch \<noteq> CHR ''/'')
   \<and> set (quote s) \<subseteq> set always_safe \<union> {CHR ''/'', CHR ''%''}"
proof -
  have "ch = CHR '' '' \<or> 128 \<le> (of_char ch :: nat) \<longrightarrow> ch \<notin> set always_safe \<and> ch \<noteq> CHR ''/''"
    using space_unsafe non_ascii_unsafe by blast
  then show ?thesis
    by (simp only: url_request_of path_of.simps quote_append quote_fixed_paths quote_single
          set_quote simp_thms)
qed

theorem request_path_quoting_witness:
  "url (request_of (devkit connection_refused) (Train (''my room'' @ [CHR 0xC3, CHR 0xA9])))
     = ''http://192.168.1.10:80/api/profiles/my%20room%C3%A9/training-sets/''
   \<and> CHR '' '' \<notin> set always_safe \<and> CHR '' '' \<noteq> CHR ''/''
   \<and> CHR 0xC3 \<notin> set always_safe \<and> CHR 0xC3 \<noteq> CHR ''/''"
  using request_path_quoting [of "devkit connection_refused"
      "Train (''my room'' @ [CHR 0xC3, CHR 0xA9])" "''my room'' @ [CHR 0xC3, CHR 0xA9]" True
      "''my room''" "[CHR 0xC3, CHR 0xA9]" "CHR '' ''" "''my room''"]
    request_path_quoting [of "devkit connection_refused"
      "Train (''my room'' @ [CHR 0xC3, CHR 0xA9])" "''my room'' @ [CHR 0xC3, CHR 0xA9]" True
      "''my room''" "[CHR 0xC3, CHR 0xA9]" "CHR 0xC3" "''my room''"]
  by (simp add: devkit_def str_int_80 quote_def quoter_def always_safe_def hex_digit_def)

text \<open>
  C9 as stated fails for slashes: the profile name \<^verbatim>\<open>a/b\<close> reaches the server with its
  slash as it is, in a path that reads as the profile \<^verbatim>\<open>a\<close> followed by \<^verbatim>\<open>b\<close>.
\<close>

theorem slash_in_profile_name_sent_raw:
  "CHR ''/'' \<in> set ''a/b''
   \<and> url (request_of (devkit connection_refused) (Change_status ''a/b'' True))
       = ''http://192.168.1.10:80/api/profiles/a/b''"
  by (simp add: devkit_def prepare_request_def str_int_80 quote_def quoter_def always_safe_def)

section \<open>Properties of the commands\<close>

lemma bind_run_simps:
  "bind_run (evs, Inl e) f = (evs, Inl e)"
  "bind_run (evs, Inr x) f = (evs @ fst (f x), snd (f x))"
  by (simp_all add: bind_run_def split: prod.splits)

lemma handle_api_errors_simps:
  "handle_api_errors L (evs, Inr x) = (evs, Inr ())"
  "handle_api_errors L (evs, Inl (AerialException ty msg)) =
     (evs @ fst (print_api_error L ty msg), snd (print_api_error L ty msg))"
  "handle_api_errors L (evs, Inl (SocketError se)) =
     (evs @ [Print (error_line L ''socket_error'' (socket_error_message se))], Inr ())"
  "handle_api_errors L (evs, Inl (HTTPError code r)) = (evs, Inl (HTTPError code r))"
  "handle_api_errors L (evs, Inl (PyError cls)) = (evs, Inl (PyError cls))"
  by (simp_all add: handle_api_errors_def bind_run_simps print_api_error_def print_def)

lemma print_api_error_strings:
  "print_api_error L (JStr ty) (JStr msg) = ([Print (error_line L ty msg)], Inr ())"
  by (simp add: print_api_error_def print_def)

lemma print_api_error_outcome:
  "snd (print_api_error L ty msg) \<noteq> Inl (AerialException a b)"
  "snd (print_api_error L ty msg) \<noteq> Inl (SocketError se)"
  by (simp_all add: print_api_error_def print_def raise_def split: json.splits)

lemma handle_api_errors_outcome:
  "snd (handle_api_errors L r) \<noteq> Inl (AerialException ty msg)"
  "snd (handle_api_errors L r) \<noteq> Inl (SocketError se)"
proof -
  obtain evs x where r: "r = (evs, x)" by (cases r)
  show "snd (handle_api_errors L r) \<noteq> Inl (AerialException ty msg)"
  proof (cases x)
    case (Inl e)
    then show ?thesis
      using r by (cases e) (simp_all add: handle_api_errors_simps print_api_error_outcome)
  qed (simp add: r handle_api_errors_simps)
  show "snd (handle_api_errors L r) \<noteq> Inl (SocketError se)"
  proof (cases x)
    case (Inl e)
    then show ?thesis
      using r by (cases e) (simp_all add: handle_api_errors_simps print_api_error_outcome)
  qed (simp add: r handle_api_errors_simps)
qed

lemma first_call_raises:
  assumes "call L w (first_call c) = Inl e"
  shows "\<exists>evs. command_body L w c = (evs, Inl e)"
proof (cases c)
  case List_command
  with assms show ?thesis by (simp add: app_list_profiles_def lift_def bind_run_simps)
next
  case Reset_command
  with assms show ?thesis by (simp add: app_reset_def lift_def bind_run_simps)
next
  case (Train_command n)
  with assms show ?thesis by (simp add: app_train_def lift_def bind_run_simps)
next
  case (Enable_command n)
  with assms show ?thesis by (simp add: app_enable_def lift_def bind_run_simps)
next
  case (Disable_command n)
  with assms show ?thesis by (simp add: app_disable_def lift_def bind_run_simps)
next
  case (Detect_command m)
  with assms show ?thesis by (simp add: app_detect_def lift_def print_def bind_run_simps)
qed

lemma run_command_aerial:
  "command_body L w c = (evs, Inl (AerialException (JStr ty) (JStr msg)))
       \<Longrightarrow> run_command L w c = (evs @ [Print (error_line L ty msg)], Inr ())"
  by (simp add: run_command_def handle_api_errors_simps print_api_error_strings)

lemma run_command_socket:
  "command_body L w c = (evs, Inl (SocketError se))
       \<Longrightarrow> run_command L w c
             = (evs @ [Print (error_line L ''socket_error'' (socket_error_message se))], Inr ())"
  by (simp add: run_command_def handle_api_errors_simps)

lemma run_command_never:
  "snd (run_command L w c) \<noteq> Inl (AerialException ty msg)"
  "snd (run_command L w c) \<noteq> Inl (SocketError se)"
  unfolding run_command_def by (rule handle_api_errors_outcome)+

lemma run_command_error_document:
  assumes "client w (request_of w (first_call c)) = Inl e"
    and "carries_error_document L e (JStr ty) (JStr msg)"
  shows "\<exists>evs. run_command L w c = (evs @ [Print (error_line L ty msg)], Inr ())"
proof -
  have "call L w (first_call c) = Inl (AerialException (JStr ty) (JStr msg))"
    using assms by (rule call_wraps_error_document)
  from first_call_raises [OF this]
  obtain evs where "command_body L w c = (evs, Inl (AerialException (JStr ty) (JStr msg)))" ..
  then have "run_command L w c = (evs @ [Print (error_line L ty msg)], Inr ())"
    by (rule run_command_aerial)
  then show ?thesis by (rule exI [of _ evs])
qed

lemma call_socket_error:
  assumes "client w (request_of w c) = Inl (SocketError se)"
  shows "call L w c = Inl (SocketError se)"
  using assms by (rule call_reraises) (simp add: carries_error_document_def)

lemma run_command_socket_error:
  assumes "client w (request_of w (first_call c)) = Inl (SocketError se)"
  shows "\<exists>evs. run_command L w c
             = (evs @ [Print (error_line L ''socket_error'' (socket_error_message se))], Inr ())"
proof -
  have "call L w (first_call c) = Inl (SocketError se)"
    using assms by (rule call_socket_error)
  from first_call_raises [OF this]
  obtain evs where "command_body L w c = (evs, Inl (SocketError se))" ..
  then have "run_command L w c
      = (evs @ [Print (error_line L ''socket_error'' (socket_error_message se))], Inr ())"
    by (rule run_command_socket)
  then show ?thesis by (rule exI [of _ evs])
qed

text \<open>
  C1, as the code has it. For each of the six commands, and for what is raised in the
  thread that runs the command (for \<^verbatim>\<open>train\<close> this includes the exception of the call on
  the executor, which \<^verbatim>\<open>task.result()\<close> raises again there; what is raised inside the
  detection thread never reaches the handler and is not meant here): an \<open>AerialException\<close>
  whose type and message are strings and a \<^verbatim>\<open>socket.error\<close> are caught by
  \<^verbatim>\<open>handle_api_errors\<close> and printed as \<^verbatim>\<open>[TYPE] message\<close> after what the command had
  printed, the type with its underscores replaced and in upper case as \<^verbatim>\<open>.upper()\<close> gives
  it, and the handler returns normally; no \<open>AerialException\<close> and no \<^verbatim>\<open>socket.error\<close> ever
  leaves a handler; so a request that fails with a standard error document of strings, or
  with a socket error, ends in a printed line. The handler has no clause for any other
  exception: tornado's \<open>HTTPError\<close>, which \<^verbatim>\<open>__http_request\<close> re-raises when the error
  response is not a standard error document, leaves the handler.
\<close>

theorem command_error_boundary:
  "(\<forall>evs ty msg. command_body L w c = (evs, Inl (AerialException (JStr ty) (JStr msg)))
       \<longrightarrow> run_command L w c = (evs @ [Print (error_line L ty msg)], Inr ()))
   \<and> (\<forall>evs se. command_body L w c = (evs, Inl (SocketError se))
       \<longrightarrow> run_command L w c
             = (evs @ [Print (error_line L ''socket_error'' (socket_error_message se))], Inr ()))
   \<and> (\<forall>ty msg. snd (run_command L w c) \<noteq> Inl (AerialException ty msg))
   \<and> (\<forall>se. snd (run_command L w c) \<noteq> Inl (SocketError se))
   \<and> (\<forall>e ty msg. client w (request_of w (first_call c)) = Inl e
         \<and> carries_error_document L e (JStr ty) (JStr msg)
       \<longrightarrow> (\<exists>evs. run_command L w c = (evs @ [Print (error_line L ty msg)], Inr ())))
   \<and> (\<forall>se. client w (request_of w (first_call c)) = Inl (SocketError se)
       \<longrightarrow> (\<exists>evs. run_command L w c
             = (evs @ [Print (error_line L ''socket_error'' (socket_error_message se))], Inr ())))
   \<and> (\<forall>evs status r. command_body L w c = (evs, Inl (HTTPError status r))
       \<longrightarrow> run_command L w c = (evs, Inl (HTTPError status r)))"
proof (intro conjI allI impI)
  fix evs ty msg
  assume "command_body L w c = (evs, Inl (AerialException (JStr ty) (JStr msg)))"
  then show "run_command L w c = (evs @ [Print (error_line L ty msg)], Inr ())"
    by (rule run_command_aerial)
next
  fix evs se
  assume "command_body L w c = (evs, Inl (SocketError se))"
  then show "run_command L w c
      = (evs @ [Print (error_line L ''socket_error'' (socket_error_message se))], Inr ())"
    by (rule run_command_socket)
next
  fix ty msg
  show "snd (run_command L w c) \<noteq> Inl (AerialException ty msg)"
    by (rule run_command_never)
next
  fix se
  show "snd (run_command L w c) \<noteq> Inl (SocketError se)"
    by (rule run_command_never)
next
  fix e ty msg
  assume a: "client w (request_of w (first_call c)) = Inl e
     \<and> carries_error_document L e (JStr ty) (JStr msg)"
  show "\<exists>evs. run_command L w c = (evs @ [Print (error_line L ty msg)], Inr ())"
    by (rule run_command_error_document [OF conjunct1 [OF a] conjunct2 [OF a]])
next
  fix se
  assume "client w (request_of w (first_call c)) = Inl (SocketError se)"
  then show "\<exists>evs. run_command L w c
      = (evs @ [Print (error_line L ''socket_error'' (socket_error_message se))], Inr ())"
    by (rule run_command_socket_error)
next
  fix evs status r
  assume "command_body L w c = (evs, Inl (HTTPError status r))"
  then show "run_command L w c = (evs, Inl (HTTPError status r))"
    by (simp add: run_command_def handle_api_errors_simps)
qed

theorem command_error_boundary_witness:
  \<open>run_command libs (devkit connection_refused) (Train_command ''alice'')
     = ([Print_delay 5, Print_timer 45, Print ''[SOCKET ERROR] Connection refused.''], Inr ())
   \<and> run_command libs (devkit (fails_with 404
        ''{"error": {"type": "not_found", "message": "No such profile."}}'')) Reset_command
     = ([Print ''[NOT FOUND] No such profile.''], Inr ())
   \<and> run_command libs (devkit (fails_with 502 ''Bad Gateway'')) (Disable_command ''bob'')
     = ([], Inl (HTTPError 502 (Some (Response (Some ''Bad Gateway'')))))\<close>
proof -
  let ?doc = \<open>''{"error": {"type": "not_found", "message": "No such profile."}}''\<close>
  have b1: "command_body libs (devkit connection_refused) (Train_command ''alice'')
      = ([Print_delay 5, Print_timer 45], Inl (SocketError (Some ''Connection refused'')))"
    by code_simp
  have l1: "error_line libs ''socket_error'' (socket_error_message (Some ''Connection refused''))
      = ''[SOCKET ERROR] Connection refused.''"
    by code_simp
  have b2: "command_body libs (devkit (fails_with 404 ?doc)) Reset_command
      = ([], Inl (AerialException (JStr ''not_found'') (JStr ''No such profile.'')))"
    by code_simp
  have l2: "error_line libs ''not_found'' ''No such profile.'' = ''[NOT FOUND] No such profile.''"
    by code_simp
  have b3: "command_body libs (devkit (fails_with 502 ''Bad Gateway'')) (Disable_command ''bob'')
      = ([], Inl (HTTPError 502 (Some (Response (Some ''Bad Gateway'')))))"
    by code_simp
  from command_error_boundary [of libs "devkit connection_refused" "Train_command ''alice''"] b1
  have "run_command libs (devkit connection_refused) (Train_command ''alice'')
      = ([Print_delay 5, Print_timer 45]
          @ [Print (error_line libs ''socket_error'' (socket_error_message (Some ''Connection refused'')))],
         Inr ())"
    by blast
  moreover
  from command_error_boundary [of libs "devkit (fails_with 404 ?doc)" Reset_command] b2
  have "run_command libs (devkit (fails_with 404 ?doc)) Reset_command
      = ([] @ [Print (error_line libs ''not_found'' ''No such profile.'')], Inr ())"
    by blast
  moreover
  from command_error_boundary [of libs "devkit (fails_with 502 ''Bad Gateway'')"
      "Disable_command ''bob''"] b3
  have "run_command libs (devkit (fails_with 502 ''Bad Gateway'')) (Disable_command ''bob'')
      = ([], Inl (HTTPError 502 (Some (Response (Some ''Bad Gateway'')))))"
    by blast
  ultimately show ?thesis by (simp add: l1 l2)
qed

text \<open>
  C1 as stated fails for the transport errors that \<^verbatim>\<open>__http_request\<close> re-raises as they
  are: a response with status 500 and a body that is not an error document, and a timeout
  (tornado's error 599, without a response), both leave the command handler uncaught.
\<close>

theorem http_error_escapes_handler:
  "run_command libs (devkit (fails_with 500 ''Internal Server Error'')) List_command
     = ([], Inl (HTTPError 500 (Some (Response (Some ''Internal Server Error'')))))
   \<and> run_command libs (devkit (Inl (HTTPError 599 None))) (Detect_command ''room'')
     = ([Print ''Initializing...\<newline>''], Inl (HTTPError 599 None))"
  by code_simp

lemma dict_get_null:
  "dict_get d k = JNull \<longleftrightarrow> map_of d k = None \<or> map_of d k = Some JNull"
  by (simp add: dict_get_def split: option.splits)

lemma format_datetime_outcome:
  "(\<exists>t. format_datetime L v f = Inr t) \<or> (\<exists>cls. format_datetime L v f = Inl (PyError cls))"
  by (simp add: format_datetime_def split: option.splits sum.splits)

lemma app_detect_unfold:
  assumes "initialize L w mode = Inr (JObj d)"
  shows "app_detect L w mode =
     (if dict_get d ''profiles'' = JNull then
        ([Print ''Initializing...\<newline>''], Inl unknown_error)
      else if mode = ''room'' \<and> dict_get d ''expiry'' \<noteq> JNull then
        (case format_datetime L (dict_get d ''expiry'') DATETIME_FORMAT_TIME of
           Inl e \<Rightarrow> ([Print ''Initializing...\<newline>''], Inl e)
         | Inr t \<Rightarrow>
             ([Print ''Initializing...\<newline>'', Print (banner (Some t)),
               Detection_started, Signal_pause], Inr ()))
      else
        ([Print ''Initializing...\<newline>'', Print (banner None),
          Detection_started, Signal_pause], Inr ()))"
  using assms
  by (simp add: app_detect_def bind_run_simps print_def lift_def raise_def split: sum.splits)

lemma app_detect_rejects:
  assumes "initialize L w mode = Inr (JObj d)"
    and "map_of d ''profiles'' = None \<or> map_of d ''profiles'' = Some JNull"
  shows "app_detect L w mode = ([Print ''Initializing...\<newline>''], Inl unknown_error)"
  using assms(2) by (simp add: app_detect_unfold [OF assms(1)] dict_get_null)

lemma run_detect_rejects:
  assumes "initialize L w mode = Inr (JObj d)"
    and "map_of d ''profiles'' = None \<or> map_of d ''profiles'' = Some JNull"
  shows "run_command L w (Detect_command mode) =
     ([Print ''Initializing...\<newline>'',
       Print (error_line L ''unknown_error''
                ''Unexpected response received from server during initialization.'')],
      Inr ())"
  by (simp add: run_command_def app_detect_rejects [OF assms] unknown_error_def
        handle_api_errors_simps print_api_error_strings)

lemma run_detect_with_expiry:
  assumes "initialize L w mode = Inr (JObj d)"
    and "\<exists>v. map_of d ''profiles'' = Some v \<and> v \<noteq> JNull"
    and "mode = ''room'' \<and> dict_get d ''expiry'' \<noteq> JNull"
    and "format_datetime L (dict_get d ''expiry'') DATETIME_FORMAT_TIME = Inr t"
  shows "run_command L w (Detect_command mode) =
           ([Print ''Initializing...\<newline>'',
             Print (''Detection is about to begin and expires at '' @ t
                      @ ''. Press Ctrl+C to stop.\<newline>''),
             Detection_started, Signal_pause], Inr ())"
proof -
  from assms(2) have "dict_get d ''profiles'' \<noteq> JNull"
    by (auto simp add: dict_get_null)
  then show ?thesis
    unfolding run_command_def command_body.simps app_detect_unfold [OF assms(1)]
    using assms(3,4) by (simp add: banner_def handle_api_errors_simps)
qed

lemma run_detect_without_expiry:
  assumes "initialize L w mode = Inr (JObj d)"
    and "\<exists>v. map_of d ''profiles'' = Some v \<and> v \<noteq> JNull"
    and "\<not> (mode = ''room'' \<and> dict_get d ''expiry'' \<noteq> JNull)"
  shows "run_command L w (Detect_command mode) =
           ([Print ''Initializing...\<newline>'',
             Print ''Detection is about to begin. Press Ctrl+C to stop.\<newline>'',
             Detection_started, Signal_pause], Inr ())"
proof -
  from assms(2) have "dict_get d ''profiles'' \<noteq> JNull"
    by (auto simp add: dict_get_null)
  then show ?thesis
    unfolding run_command_def command_body.simps app_detect_unfold [OF assms(1)]
    using assms(3) by (auto simp add: banner_def handle_api_errors_simps)
qed

text \<open>
  C4, as the code has it. When \<^verbatim>\<open>initialize(mode)\<close> returns a JSON object: if it has no
  \<^verbatim>\<open>profiles\<close> key, or the key is bound to \<^verbatim>\<open>null\<close>, \<^verbatim>\<open>detect\<close> raises the local
  \<open>AerialException\<close> of type \<^verbatim>\<open>unknown_error\<close>, which the handler prints, and no stream is
  started. With a \<^verbatim>\<open>profiles\<close> value that is not \<^verbatim>\<open>null\<close>: when the mode is \<^verbatim>\<open>room\<close> and
  the object has an \<^verbatim>\<open>expiry\<close> that is not \<^verbatim>\<open>null\<close> and that \<^verbatim>\<open>format_datetime\<close> converts,
  the banner with the converted expiry is printed; in every other mode, or without such
  an \<^verbatim>\<open>expiry\<close>, the banner without expiry; after the banner the stream is started and the
  foreground waits in \<^verbatim>\<open>signal.pause()\<close>.
\<close>

theorem detect_startup:
  assumes "initialize L w mode = Inr (JObj d)"
  shows "(map_of d ''profiles'' = None \<or> map_of d ''profiles'' = Some JNull \<longrightarrow>
            app_detect L w mode = ([Print ''Initializing...\<newline>''], Inl unknown_error)
          \<and> run_command L w (Detect_command mode) =
              ([Print ''Initializing...\<newline>'',
                Print (error_line L ''unknown_error''
                         ''Unexpected response received from server during initialization.'')],
               Inr ()))
       \<and> ((\<exists>v. map_of d ''profiles'' = Some v \<and> v \<noteq> JNull) \<longrightarrow>
            (mode = ''room'' \<and> dict_get d ''expiry'' \<noteq> JNull \<longrightarrow>
               (\<forall>t. format_datetime L (dict_get d ''expiry'') DATETIME_FORMAT_TIME = Inr t \<longrightarrow>
                  run_command L w (Detect_command mode) =
                    ([Print ''Initializing...\<newline>'',
                      Print (''Detection is about to begin and expires at '' @ t
                               @ ''. Press Ctrl+C to stop.\<newline>''),
                      Detection_started, Signal_pause], Inr ())))
          \<and> (\<not> (mode = ''room'' \<and> dict_get d ''expiry'' \<noteq> JNull) \<longrightarrow>
               run_command L w (Detect_command mode) =
                 ([Print ''Initializing...\<newline>'',
                   Print ''Detection is about to begin. Press Ctrl+C to stop.\<newline>'',
                   Detection_started, Signal_pause], Inr ())))"
proof (intro conjI impI allI)
  assume "map_of d ''profiles'' = None \<or> map_of d ''profiles'' = Some JNull"
  then show "app_detect L w mode = ([Print ''Initializing...\<newline>''], Inl unknown_error)"
    by (rule app_detect_rejects [OF assms])
next
  assume "map_of d ''profiles'' = None \<or> map_of d ''profiles'' = Some JNull"
  then show "run_command L w (Detect_command mode) =
              ([Print ''Initializing...\<newline>'',
                Print (error_line L ''unknown_error''
                         ''Unexpected response received from server during initialization.'')],
               Inr ())"
    by (rule run_detect_rejects [OF assms])
next
  fix t
  assume "\<exists>v. map_of d ''profiles'' = Some v \<and> v \<noteq> JNull"
    and "mode = ''room'' \<and> dict_get d ''expiry'' \<noteq> JNull"
    and "format_datetime L (dict_get d ''expiry'') DATETIME_FORMAT_TIME = Inr t"
  then show "run_command L w (Detect_command mode) =
                    ([Print ''Initializing...\<newline>'',
                      Print (''Detection is about to begin and expires at '' @ t
                               @ ''. Press Ctrl+C to stop.\<newline>''),
                      Detection_started, Signal_pause], Inr ())"
    by (rule run_detect_with_expiry [OF assms])
next
  assume "\<exists>v. map_of d ''profiles'' = Some v \<and> v \<noteq> JNull"
    and "\<not> (mode = ''room'' \<and> dict_get d ''expiry'' \<noteq> JNull)"
  then show "run_command L w (Detect_command mode) =
                 ([Print ''Initializing...\<newline>'',
                   Print ''Detection is about to begin. Press Ctrl+C to stop.\<newline>'',
                   Detection_started, Signal_pause], Inr ())"
    by (rule run_detect_without_expiry [OF assms])
qed

theorem detect_startup_witness:
  \<open>run_command libs (devkit (answers ''{}'')) (Detect_command ''room'')
     = ([Print ''Initializing...\<newline>'',
         Print ''[UNKNOWN ERROR] Unexpected response received from server during initialization.''],
        Inr ())
   \<and> run_command libs
        (devkit (answers ''{"profiles": [], "expiry": "2016-05-01T10:00:00Z"}''))
        (Detect_command ''room'')
     = ([Print ''Initializing...\<newline>'',
         Print ''Detection is about to begin and expires at 10:00:00 AM. Press Ctrl+C to stop.\<newline>'',
         Detection_started, Signal_pause], Inr ())
   \<and> run_command libs
        (devkit (answers ''{"profiles": [], "expiry": "2016-05-01T10:00:00Z"}''))
        (Detect_command ''home'')
     = ([Print ''Initializing...\<newline>'',
         Print ''Detection is about to begin. Press Ctrl+C to stop.\<newline>'',
         Detection_started, Signal_pause], Inr ())\<close>
proof -
  let ?doc = \<open>''{"profiles": [], "expiry": "2016-05-01T10:00:00Z"}''\<close>
  let ?d = "[(''profiles'', JArr []), (''expiry'', JStr ''2016-05-01T10:00:00Z'')]"
  have i1: "initialize libs (devkit (answers ''{}'')) ''room'' = Inr (JObj [])"
    by code_simp
  have i2: "initialize libs (devkit (answers ?doc)) ''room'' = Inr (JObj ?d)"
    by code_simp
  have i3: "initialize libs (devkit (answers ?doc)) ''home'' = Inr (JObj ?d)"
    by code_simp
  have f: "format_datetime libs (dict_get ?d ''expiry'') DATETIME_FORMAT_TIME = Inr ''10:00:00 AM''"
    by code_simp
  have l: "error_line libs ''unknown_error''
             ''Unexpected response received from server during initialization.''
           = ''[UNKNOWN ERROR] Unexpected response received from server during initialization.''"
    by code_simp
  have g: "dict_get ?d ''expiry'' \<noteq> JNull"
    by (simp add: dict_get_def)
  show ?thesis
    using detect_startup [OF i1] detect_startup [OF i2] detect_startup [OF i3] f g
    by (simp add: l)
qed

text \<open>
  C4 as stated fails for a response that has the \<^verbatim>\<open>profiles\<close> field bound to \<^verbatim>\<open>null\<close>: the
  field is not lacking, and still no banner is printed and no stream is started.
\<close>

theorem null_profiles_rejected_like_missing:
  \<open>initialize libs (devkit (answers ''{"profiles": null}'')) ''home''
     = Inr (JObj [(''profiles'', JNull)])
   \<and> map_of [(''profiles'', JNull)] ''profiles'' \<noteq> None
   \<and> run_command libs (devkit (answers ''{"profiles": null}'')) (Detect_command ''home'')
     = ([Print ''Initializing...\<newline>'',
         Print ''[UNKNOWN ERROR] Unexpected response received from server during initialization.''],
        Inr ())\<close>
  by code_simp

text \<open>
  C10. When \<^verbatim>\<open>initialize(mode)\<close> returns a JSON object, \<^verbatim>\<open>detect\<close> raises the local
  \<open>AerialException\<close> of type \<^verbatim>\<open>unknown_error\<close> exactly when the \<^verbatim>\<open>profiles\<close> key is missing or
  bound to \<^verbatim>\<open>null\<close>; in both cases it has printed the first line only, the handler prints
  the error and returns, and no stream is started.
\<close>

theorem null_profiles_as_missing:
  assumes "initialize L w mode = Inr (JObj d)"
  shows "(snd (app_detect L w mode) = Inl unknown_error
            \<longleftrightarrow> map_of d ''profiles'' = None \<or> map_of d ''profiles'' = Some JNull)
       \<and> (map_of d ''profiles'' = None \<or> map_of d ''profiles'' = Some JNull \<longrightarrow>
            app_detect L w mode = ([Print ''Initializing...\<newline>''], Inl unknown_error)
          \<and> Detection_started \<notin> set (fst (run_command L w (Detect_command mode)))
          \<and> snd (run_command L w (Detect_command mode)) = Inr ())"
proof (intro conjI impI iffI)
  assume r: "snd (app_detect L w mode) = Inl unknown_error"
  show "map_of d ''profiles'' = None \<or> map_of d ''profiles'' = Some JNull"
  proof (rule ccontr)
    assume "\<not> (map_of d ''profiles'' = None \<or> map_of d ''profiles'' = Some JNull)"
    then have "dict_get d ''profiles'' \<noteq> JNull" by (simp add: dict_get_null)
    with r format_datetime_outcome [of L "dict_get d ''expiry''" DATETIME_FORMAT_TIME]
    show False
      by (auto simp add: app_detect_unfold [OF assms] unknown_error_def split: if_splits)
  qed
next
  assume "map_of d ''profiles'' = None \<or> map_of d ''profiles'' = Some JNull"
  then show "snd (app_detect L w mode) = Inl unknown_error"
    by (simp add: app_detect_rejects [OF assms])
next
  assume "map_of d ''profiles'' = None \<or> map_of d ''profiles'' = Some JNull"
  then show "app_detect L w mode = ([Print ''Initializing...\<newline>''], Inl unknown_error)"
    by (rule app_detect_rejects [OF assms])
next
  assume "map_of d ''profiles'' = None \<or> map_of d ''profiles'' = Some JNull"
  then show "Detection_started \<notin> set (fst (run_command L w (Detect_command mode)))"
    by (simp add: run_detect_rejects [OF assms])
next
  assume "map_of d ''profiles'' = None \<or> map_of d ''profiles'' = Some JNull"
  then show "snd (run_command L w (Detect_command mode)) = Inr ()"
    by (simp add: run_detect_rejects [OF assms])
qed

theorem null_profiles_as_missing_witness:
  \<open>app_detect libs (devkit (answers ''{}'')) ''home''
     = ([Print ''Initializing...\<newline>''], Inl unknown_error)
   \<and> app_detect libs (devkit (answers ''{"profiles": null}'')) ''home''
     = ([Print ''Initializing...\<newline>''], Inl unknown_error)
   \<and> snd (app_detect libs (devkit (answers ''{"profiles": []}'')) ''home'') \<noteq> Inl unknown_error\<close>
proof -
  have i1: "initialize libs (devkit (answers ''{}'')) ''home'' = Inr (JObj [])"
    by code_simp
  have i2: \<open>initialize libs (devkit (answers ''{"profiles": null}'')) ''home''
      = Inr (JObj [(''profiles'', JNull)])\<close>
    by code_simp
  have i3: \<open>initialize libs (devkit (answers ''{"profiles": []}'')) ''home''
      = Inr (JObj [(''profiles'', JArr [])])\<close>
    by code_simp
  show ?thesis
    using null_profiles_as_missing [OF i1] null_profiles_as_missing [OF i2]
      null_profiles_as_missing [OF i3]
    by simp
qed

section \<open>Properties of the detection stream\<close>

lemma listener_calls_append:
  "listener_calls (a @ b) = listener_calls a @ listener_calls b"
  by (induction a rule: listener_calls.induct) simp_all

lemma alarms_append: "alarms (a @ b) = alarms a + alarms b"
  by (induction a rule: alarms.induct) simp_all

lemma step_stopping:
  assumes "stopping s"
  shows "stopping (step L listener t s)
       \<and> listener_calls (events (step L listener t s)) = listener_calls (events s)
       \<and> steps_to_finish (pc (step L listener t s)) \<le> steps_to_finish (pc s) - 1"
proof (cases "pc s")
  case Connect
  with assms show ?thesis by (simp add: stopping_def before_stop_check_def)
next
  case Check_frame
  with assms show ?thesis by (simp add: stopping_def before_stop_check_def)
next
  case (Raised e)
  with assms show ?thesis by (simp add: stopping_def before_stop_check_def)
next
  case Close
  with assms show ?thesis
    by (simp add: stopping_def before_stop_check_def step_def statement_def stop_def
          steps_to_finish_def listener_calls_append split: option.splits)
qed (use assms in \<open>simp_all add: stopping_def before_stop_check_def step_def statement_def
       stop_def steps_to_finish_def listener_calls_append\<close>)

lemma run_stopping:
  assumes "stopping s"
  shows "stopping (run L listener ts s)
       \<and> listener_calls (events (run L listener ts s)) = listener_calls (events s)
       \<and> steps_to_finish (pc (run L listener ts s)) \<le> steps_to_finish (pc s) - length ts"
  using assms
proof (induction ts arbitrary: s)
  case Nil
  then show ?case by simp
next
  case (Cons t ts)
  from step_stopping [OF Cons.prems, of L listener t] Cons.IH [of "step L listener t s"]
  show ?case by auto
qed

lemma stopping_finished:
  assumes "stopping s" and "steps_to_finish (pc s) = 0"
  shows "pc s = Finished"
  using assms
  by (auto simp add: stopping_def before_stop_check_def steps_to_finish_def)

text \<open>
  Between the stop check and the call of the listener the flag is not looked at: a
  request to stop that arrives there does not keep the frame from being handed over.
\<close>

lemma stop_during_delivery:
  assumes "pc s = Check_frame" and "message_future s = Done (Some m)"
    and "json_loads L m = Some r"
  shows "events (step L listener t s) = events s @ [Listener r]"
  using assms by (simp add: step_def statement_def stop_def split: option.splits)

text \<open>
  C5. If the stop flag is set while the coroutine is at a statement of the read loop from
  which the flag is looked at before a frame is handed over (the loop test, reading,
  the check for a closed connection, the stop check, the sleep), then whatever arrives
  and whatever the foreground does, the listener is not called again, also when a frame
  is already there, and after at most five more statements the coroutine has returned.
\<close>

theorem stop_requested_no_further_callback:
  assumes "stop_detection (self s)" and "before_stop_check (pc s)"
  shows "listener_calls (events (run L listener ts s)) = listener_calls (events s)
       \<and> (5 \<le> length ts \<longrightarrow> pc (run L listener ts s) = Finished)"
proof -
  from assms have st: "stopping s" by (simp add: stopping_def)
  note r = run_stopping [OF st, of L listener ts]
  have "steps_to_finish (pc s) \<le> 5"
    using assms(2) by (auto simp add: before_stop_check_def steps_to_finish_def)
  with r have "5 \<le> length ts \<Longrightarrow> steps_to_finish (pc (run L listener ts s)) = 0"
    by simp
  with r stopping_finished show ?thesis by blast
qed

theorem stop_requested_no_further_callback_witness:
  "stop_detection (self (frame_arrived\<lparr>self := stop (self frame_arrived)\<rparr>))
   \<and> pc (frame_arrived\<lparr>self := stop (self frame_arrived)\<rparr>) = Check_stop
   \<and> message_future (frame_arrived\<lparr>self := stop (self frame_arrived)\<rparr>) \<noteq> Pending
   \<and> listener_calls (events (run libs quiet_listener [idle, idle, idle, idle, idle]
         (frame_arrived\<lparr>self := stop (self frame_arrived)\<rparr>))) = []
   \<and> pc (run libs quiet_listener [idle, idle, idle, idle, idle]
         (frame_arrived\<lparr>self := stop (self frame_arrived)\<rparr>)) = Finished"
proof -
  let ?s = "frame_arrived\<lparr>self := stop (self frame_arrived)\<rparr>"
  have p: "pc frame_arrived = Check_stop" by code_simp
  have f: "message_future frame_arrived \<noteq> Pending" by code_simp
  have e: "events frame_arrived = []" by code_simp
  have 1: "stop_detection (self ?s)" by (simp add: stop_def)
  have 2: "before_stop_check (pc ?s)" by (simp add: p before_stop_check_def)
  from stop_requested_no_further_callback [OF 1 2, of libs quiet_listener
      "[idle, idle, idle, idle, idle]"] 1 p f e
  show ?thesis by simp
qed

lemma step_invariant:
  assumes "loop_invariant s"
  shows "loop_invariant (step L listener t s)"
proof (cases "pc s")
  case Check_frame
  with assms show ?thesis
    by (simp add: loop_invariant_def step_def statement_def stop_def alarms_append
          split: option.splits future.splits)
next
  case Close
  with assms show ?thesis
    by (auto simp add: loop_invariant_def step_def statement_def stop_def alarms_append
          split: option.splits)
next
  case Connect
  with assms show ?thesis
    by (simp add: loop_invariant_def step_def statement_def stop_def alarms_append
          split: option.splits)
qed (use assms in \<open>auto simp add: loop_invariant_def step_def statement_def stop_def alarms_append\<close>)

lemma run_invariant:
  assumes "loop_invariant s"
  shows "loop_invariant (run L listener ts s)"
  using assms by (induction ts arbitrary: s) (simp_all add: step_invariant)

lemma detect_invariant: "loop_invariant (detect w)"
  by (simp add: loop_invariant_def detect_def)

lemma step_finished:
  assumes "pc s = Finished"
  shows "pc (step L listener t s) = Finished"
    and "events (step L listener t s) = events s"
    and "socket (step L listener t s) = socket s"
    and "stop_detection (self s) \<Longrightarrow> stop_detection (self (step L listener t s))"
  using assms by (simp_all add: step_def statement_def stop_def)

lemma run_finished:
  assumes "pc s = Finished"
  shows "pc (run L listener ts s) = Finished
       \<and> events (run L listener ts s) = events s
       \<and> socket (run L listener ts s) = socket s
       \<and> (stop_detection (self s) \<longrightarrow> stop_detection (self (run L listener ts s)))"
  using assms
proof (induction ts arbitrary: s)
  case Nil
  then show ?case by simp
next
  case (Cons t ts)
  from step_finished [OF Cons.prems, of L listener t] Cons.IH [of "step L listener t s"]
  show ?case by simp
qed

lemma exit_two_steps:
  assumes "pc s = While" and "stop_detection (self s)" and "socket s = Some Opened"
  shows "pc (step L listener t2 (step L listener t1 s)) = Finished
       \<and> stop_detection (self (step L listener t2 (step L listener t1 s)))
       \<and> socket (step L listener t2 (step L listener t1 s)) = Some Closed
       \<and> events (step L listener t2 (step L listener t1 s)) = events s @ [Socket_close]"
  using assms by (simp add: step_def statement_def stop_def)

lemma closure_one_step:
  assumes "pc s = Check_closed" and "message_future s = Done None"
  shows "pc (step L listener t s) = While
       \<and> stop_detection (self (step L listener t s))
       \<and> socket (step L listener t s) = socket s
       \<and> events (step L listener t s) = events s @ [Print connection_lost, Alarm 1]"
  using assms by (simp add: step_def statement_def stop_def)

lemma list_of_length_2: "2 \<le> length ts \<Longrightarrow> \<exists>a b r. ts = a # b # r"
  by (cases ts; cases "tl ts") auto

lemma loop_exit_closes:
  assumes "pc s = While" and "stop_detection (self s)" and "socket s = Some Opened"
    and "2 \<le> length ts"
  shows "pc (run L listener ts s) = Finished
       \<and> stop_detection (self (run L listener ts s))
       \<and> socket (run L listener ts s) = Some Closed
       \<and> events (run L listener ts s) = events s @ [Socket_close]"
proof -
  from assms(4) obtain a b r where ts: "ts = a # b # r"
    using list_of_length_2 by blast
  let ?s2 = "step L listener b (step L listener a s)"
  note two = exit_two_steps [OF assms(1-3), of L listener b a]
  from two have "pc ?s2 = Finished" by simp
  from run_finished [OF this, of L listener r] two show ?thesis
    by (simp add: ts)
qed

lemma closure_exits:
  assumes "pc s = Check_closed" and "message_future s = Done None"
    and "socket s = Some Opened" and "3 \<le> length ts"
  shows "pc (run L listener ts s) = Finished
       \<and> stop_detection (self (run L listener ts s))
       \<and> socket (run L listener ts s) = Some Closed
       \<and> events (run L listener ts s)
           = events s @ [Print connection_lost, Alarm 1, Socket_close]"
proof -
  from assms(4) obtain a r where ts: "ts = a # r" and r: "2 \<le> length r"
    by (cases ts) auto
  note one = closure_one_step [OF assms(1,2), of L listener a]
  from one assms(3) have "socket (step L listener a s) = Some Opened" by simp
  from loop_exit_closes [OF _ _ this r, of L listener] one show ?thesis
    by (simp add: ts)
qed

text \<open>
  C6, as the code has it. In every run of the coroutine started by \<^verbatim>\<open>detect\<close>:
  \<^verbatim>\<open>signal.alarm\<close> is called at most once; when the loop finds the future resolved to no
  data, it sets the stop flag, prints the message, raises the alarm (the only one of the
  run), leaves the loop and closes the socket; whenever the loop ends through its test,
  the stop flag being set by a request to stop or by the closed connection, the socket is
  closed next and the coroutine returns; and whenever the coroutine has returned, the
  socket is closed, by the last thing it did. Nothing is said of a coroutine that an
  exception has ended.
\<close>

theorem connection_closed_by_peer:
  assumes "s = run L listener ts0 (detect w)"
  shows "alarms (events s) \<le> 1
       \<and> (pc s = Check_closed \<and> message_future s = Done None \<longrightarrow>
            (\<forall>ts. 3 \<le> length ts \<longrightarrow>
               pc (run L listener ts s) = Finished
             \<and> stop_detection (self (run L listener ts s))
             \<and> socket (run L listener ts s) = Some Closed
             \<and> events (run L listener ts s)
                 = events s @ [Print connection_lost, Alarm 1, Socket_close]
             \<and> alarms (events (run L listener ts s)) = 1))
       \<and> (pc s = While \<and> stop_detection (self s) \<longrightarrow>
            (\<forall>ts. 2 \<le> length ts \<longrightarrow>
               pc (run L listener ts s) = Finished
             \<and> socket (run L listener ts s) = Some Closed
             \<and> events (run L listener ts s) = events s @ [Socket_close]))
       \<and> (pc s = Finished \<longrightarrow> socket s = Some Closed \<and> last (events s) = Socket_close)"
proof -
  have inv: "loop_invariant s"
    unfolding assms by (rule run_invariant [OF detect_invariant])
  have a: "alarms (events s) \<le> 1"
    using inv by (auto simp add: loop_invariant_def)
  have b: "pc (run L listener ts s) = Finished
             \<and> stop_detection (self (run L listener ts s))
             \<and> socket (run L listener ts s) = Some Closed
             \<and> events (run L listener ts s)
                 = events s @ [Print connection_lost, Alarm 1, Socket_close]
             \<and> alarms (events (run L listener ts s)) = 1"
    if "pc s = Check_closed \<and> message_future s = Done None" and "3 \<le> length ts" for ts
  proof -
    from that(1) inv have opened: "socket s = Some Opened" and none: "alarms (events s) = 0"
      by (auto simp add: loop_invariant_def)
    from closure_exits [OF conjunct1 [OF that(1)] conjunct2 [OF that(1)] opened that(2), of L listener]
      none
    show ?thesis by (simp add: alarms_append)
  qed
  have c: "pc (run L listener ts s) = Finished
             \<and> socket (run L listener ts s) = Some Closed
             \<and> events (run L listener ts s) = events s @ [Socket_close]"
    if "pc s = While \<and> stop_detection (self s)" and "2 \<le> length ts" for ts
  proof -
    from that(1) inv have opened: "socket s = Some Opened"
      by (auto simp add: loop_invariant_def)
    from loop_exit_closes [OF conjunct1 [OF that(1)] conjunct2 [OF that(1)] opened that(2),
        of L listener]
    show ?thesis by simp
  qed
  have d: "pc s = Finished \<longrightarrow> socket s = Some Closed \<and> last (events s) = Socket_close"
    using inv by (simp add: loop_invariant_def)
  from a b c d show ?thesis by blast
qed

theorem connection_closed_by_peer_witness:
  "pc peer_closed = Check_closed \<and> message_future peer_closed = Done None
   \<and> events (run libs quiet_listener [idle, idle, idle] peer_closed)
       = [Print connection_lost, Alarm 1, Socket_close]
   \<and> pc (run libs quiet_listener [idle, idle, idle] peer_closed) = Finished
   \<and> alarms (events (run libs quiet_listener [idle, idle, idle] peer_closed)) = 1
   \<and> socket (run libs quiet_listener [idle, idle, idle] peer_closed) = Some Closed
   \<and> pc (run libs quiet_listener [idle] peer_closed) = While
   \<and> stop_detection (self (run libs quiet_listener [idle] peer_closed))
   \<and> pc (run libs quiet_listener [stops, idle] (run libs quiet_listener [idle] peer_closed))
       = Finished
   \<and> last (events (run libs quiet_listener [idle, idle, idle] peer_closed)) = Socket_close"
proof -
  let ?w = "devkit (answers ''{}'')"
  have p: "pc peer_closed = Check_closed" by code_simp
  have f: "message_future peer_closed = Done None" by code_simp
  have e: "events peer_closed = []" by code_simp
  have l: "3 \<le> length [idle, idle, idle]" by simp
  from connection_closed_by_peer [OF peer_closed_def] p f l
  have 1: "pc (run libs quiet_listener [idle, idle, idle] peer_closed) = Finished
      \<and> socket (run libs quiet_listener [idle, idle, idle] peer_closed) = Some Closed
      \<and> events (run libs quiet_listener [idle, idle, idle] peer_closed)
          = events peer_closed @ [Print connection_lost, Alarm 1, Socket_close]
      \<and> alarms (events (run libs quiet_listener [idle, idle, idle] peer_closed)) = 1"
    by blast
  have s2: "run libs quiet_listener [idle] peer_closed
      = run libs quiet_listener [idle, idle, delivers None, idle] (detect ?w)"
    by (simp add: peer_closed_def)
  have p2: "pc (run libs quiet_listener [idle] peer_closed) = While" by code_simp
  have f2: "stop_detection (self (run libs quiet_listener [idle] peer_closed))" by code_simp
  have l2: "2 \<le> length [stops, idle]" by simp
  from connection_closed_by_peer [OF s2] p2 f2 l2
  have 2: "pc (run libs quiet_listener [stops, idle] (run libs quiet_listener [idle] peer_closed))
      = Finished"
    by blast
  have s3: "run libs quiet_listener [idle, idle, idle] peer_closed
      = run libs quiet_listener [idle, idle, delivers None, idle, idle, idle] (detect ?w)"
    by (simp add: peer_closed_def)
  from connection_closed_by_peer [OF s3] 1
  have 3: "last (events (run libs quiet_listener [idle, idle, idle] peer_closed)) = Socket_close"
    by blast
  from 1 2 3 p f e p2 f2 show ?thesis by simp
qed

text \<open>
  C6 as stated fails when the loop is left by an exception, for which the coroutine has no
  handler: a frame that is not JSON makes \<^verbatim>\<open>json.loads\<close> raise inside the loop, the
  coroutine ends there, and the socket it had opened is not closed, whatever happens
  afterwards.
\<close>

theorem bad_frame_leaves_socket_open:
  "json_loads libs ''oops'' = None
   \<and> pc bad_frame = Raised (PyError ''ValueError'')
   \<and> socket bad_frame = Some Opened
   \<and> Socket_close \<notin> set (events bad_frame)"
  by code_simp

lemma raised_stays:
  assumes "pc s = Raised e"
  shows "pc (run L listener ts s) = Raised e
       \<and> socket (run L listener ts s) = socket s
       \<and> events (run L listener ts s) = events s"
  using assms
proof (induction ts arbitrary: s)
  case Nil
  then show ?case by simp
next
  case (Cons t ts)
  from Cons.prems have "pc (step L listener t s) = Raised e
      \<and> socket (step L listener t s) = socket s \<and> events (step L listener t s) = events s"
    by (simp add: step_def statement_def)
  with Cons.IH [of "step L listener t s"] show ?case by simp
qed

text \<open>
  C7. \<^verbatim>\<open>stop\<close> is idempotent, sets the stop flag and leaves the server, the port and the
  HTTP client as they are; it does not run the loop: the coroutine is at the statement it
  was at, with the events it had produced.
\<close>

theorem stop_idempotent:
  "stop (stop w) = stop w
   \<and> stop_detection (stop w)
   \<and> server (stop w) = server w
   \<and> port (stop w) = port w
   \<and> client (stop w) = client w
   \<and> pc (s\<lparr>self := stop (self s)\<rparr>) = pc s
   \<and> events (s\<lparr>self := stop (self s)\<rparr>) = events s"
  by (simp add: stop_def)

section \<open>Properties of the shutdown\<close>

lemma shutdown_streaming:
  assumes "detection_thread app \<noteq> None"
  shows "shutdown app =
           (app\<lparr>api_wrapper := stop (api_wrapper app)\<rparr>, [Executor_shutdown False, Thread_join 3])"
  using assms by (simp add: shutdown_def)

text \<open>
  C8. Called while the stream is running (\<^verbatim>\<open>detect\<close> has stored its thread),
  \<^verbatim>\<open>shutdown\<close> sets the stop flag of the client, shuts the executor down with
  \<^verbatim>\<open>wait = False\<close>, joins the detection thread with a timeout of 3 seconds, and does nothing
  else. The state of the stream plays no part in it. So whenever a shutdown of the executor
  that does not wait blocks for no time and \<^verbatim>\<open>join(n)\<close> blocks for at most \<open>n\<close> seconds, as
  the libraries document them, \<^verbatim>\<open>shutdown\<close> is blocked for at most 3 seconds.
\<close>

theorem shutdown_while_streaming:
  assumes "detection_thread app \<noteq> None"
    and "blocks (Executor_shutdown False) = 0"
    and "\<forall>n. blocks (Thread_join n) \<le> real n"
  shows "shutdown app =
           (app\<lparr>api_wrapper := stop (api_wrapper app)\<rparr>, [Executor_shutdown False, Thread_join 3])
       \<and> stop_detection (api_wrapper (fst (shutdown app)))
       \<and> detection_thread (fst (shutdown app)) = detection_thread app
       \<and> blocked_for blocks (snd (shutdown app)) \<le> 3"
proof -
  from assms(3) have "blocks (Thread_join 3) \<le> 3"
    by (metis of_nat_numeral)
  with assms(2) show ?thesis
    by (simp add: shutdown_streaming [OF assms(1)] stop_def blocked_for_def)
qed

theorem shutdown_while_streaming_witness:
  "detection_thread streaming \<noteq> None
   \<and> snd (shutdown streaming) = [Executor_shutdown False, Thread_join 3]
   \<and> stop_detection (api_wrapper (fst (shutdown streaming)))
   \<and> stuck_thread (Thread_join 3) = 3
   \<and> blocked_for stuck_thread (snd (shutdown streaming)) \<le> 3"
proof -
  have 1: "detection_thread streaming \<noteq> None"
    by (simp add: streaming_def)
  have 2: "stuck_thread (Executor_shutdown False) = 0"
    by (simp add: stuck_thread_def)
  have 3: "\<forall>n. stuck_thread (Thread_join n) \<le> real n"
    by (simp add: stuck_thread_def)
  have 4: "stuck_thread (Thread_join 3) = 3"
    by (simp add: stuck_thread_def)
  note t = shutdown_while_streaming [OF 1 2 3]
  from t have 5: "snd (shutdown streaming) = [Executor_shutdown False, Thread_join 3]"
    by simp
  from t have 6: "stop_detection (api_wrapper (fst (shutdown streaming)))"
    by blast
  from t have 7: "blocked_for stuck_thread (snd (shutdown streaming)) \<le> 3"
    by blast
  from 1 4 5 6 7 show ?thesis by blast
qed

end
